theory Spec2Isabelle
  imports Main "HOL-Library.Word"
begin

unbundle bit_operations_syntax

section \<open>STM32F0 XPD DMA channel driver (xpd\_dma.c)\<close>

text \<open>
  A shallow embedding of \<^verbatim>\<open>STM32F0_XPD/src/xpd_dma.c\<close>. The driver works on
  memory-mapped registers, a handle structure owned by the application and two
  file-level tables (\<^verbatim>\<open>dma_users\<close>, \<^verbatim>\<open>dma_clkCtrl\<close>). Registers are 32-bit words
  kept in a register file indexed by address; every driver function takes the
  handle and the machine state and returns its result with the updated handle and
  state.
\<close>

type_synonym u8 = "8 word"
type_synonym u32 = "32 word"

subsection \<open>Data model\<close>

datatype XPD_ReturnType = XPD_OK | XPD_ERROR | XPD_BUSY | XPD_TIMEOUT

text \<open>
  Modelled from the spec: the operation awaited by the polling function is either
  TRANSFER (transfer complete) or HALF (half transfer); the enumeration itself is
  declared in xpd\_dma.h.
\<close>

datatype DMA_OperationType = DMA_OPERATION_TRANSFER | DMA_OPERATION_HALF

text \<open>The flag names the driver passes to the flag macros: \<^verbatim>\<open>TC\<close>, \<^verbatim>\<open>HT\<close>, \<^verbatim>\<open>TE\<close>.\<close>

datatype DMA_FlagType = TC | HT | TE

text \<open>The register block of one channel (\<^verbatim>\<open>hdma->Inst\<close> points to it).\<close>

record DMA_Channel_TypeDef =
  CCR :: u32
  CNDTR :: u32
  CPAR :: u32
  CMAR :: u32

text \<open>
  The hardware the driver sees: the channel register blocks by address, the
  interrupt status register of each controller by the controller's base address
  (its clear register IFCR is write-only), and the tick counter read by
  \<^verbatim>\<open>XPD_GetTimer\<close>.
\<close>

record dma_hw =
  chan :: "u32 \<Rightarrow> DMA_Channel_TypeDef"
  isr :: "u32 \<Rightarrow> u32"
  msTick :: u32

text \<open>
  The registers are volatile: each write of the driver reaches the controller,
  in program order, also when a later write overwrites its effect. A write to a
  register of a channel is recorded with the address of the channel's register
  block and the contents of the block after the write; a write to the
  flag-clear register of a controller with the controller's base address and
  the value written.
\<close>

datatype reg_write = Chan_write u32 DMA_Channel_TypeDef | IFCR_write u32 u32

text \<open>
  The machine: the hardware, the driver's static table \<^verbatim>\<open>dma_users\<close> (indexed by
  controller ordinal), the clock gate of each controller (what
  \<^verbatim>\<open>dma_clkCtrl[bo]\<close> switches), the nesting depth of the critical section, the
  log of application callbacks invoked so far (a callback is application code;
  the driver's part is the call, which the log records by the function pointer
  called), and the log of the register writes made so far.
\<close>

record machine =
  hw :: dma_hw
  dma_users :: "nat \<Rightarrow> u8"
  dma_clk :: "nat \<Rightarrow> bool"
  critical :: nat
  calls :: "nat list"
  bus :: "reg_write list"

text \<open>The callback slots of a handle; \<open>None\<close> is the unset (NULL) slot.\<close>

record DMA_CallbacksType =
  Complete :: "nat option"
  HalfComplete :: "nat option"
  Error :: "nat option"

record DMA_HandleType =
  Inst :: u32
  Base :: u32
  ChannelOffset :: u8
  Callbacks :: DMA_CallbacksType
  Errors :: u32

text \<open>
  The setup structure read by \<^verbatim>\<open>XPD_DMA_Init\<close>. Its fields are enumerations in C;
  they are kept as the integer values the assignments to the register fields
  receive.
\<close>

record DMA_PortType =
  Increment :: u32
  DataAlignment :: u32

record DMA_InitType =
  Priority :: u32
  Direction :: u32
  Mode :: u32
  Peripheral :: DMA_PortType
  Memory :: DMA_PortType

text \<open>
  The data stream given to \<^verbatim>\<open>XPD_DMA_Start\<close>: the buffer address and the number of
  data elements, each as the 32-bit value the register assignment stores.
\<close>

record DataStreamType =
  buffer :: u32
  length_ds :: u32

text \<open>
  A volatile register may change between two reads of a busy-wait loop. One
  hardware event is what the hardware did since the previous iteration: any
  change of the hardware state (flags raised, the enable bit dropping, ticks
  passing). A polling function receives the list of events of its iterations;
  when the list ends while the loop still waits, the function has not returned
  (\<open>None\<close>).
\<close>

type_synonym hw_event = "dma_hw \<Rightarrow> dma_hw"

definition hw_step :: "hw_event \<Rightarrow> machine \<Rightarrow> machine" where
  "hw_step e m = m\<lparr>hw := e (hw m)\<rparr>"

subsection \<open>Constants of the device and of the library headers\<close>

text \<open>
  Modelled from the spec: the bit positions of the channel control register and
  of a channel's flag group in the shared status register belong to the fixed
  register layout of the controller (device header, not part of xpd\_dma.c).
  They are those of the STM32F0 reference manual: EN, TCIE, HTIE, TEIE, DIR,
  CIRC, PINC, MINC at bits 0 to 7, PSIZE at 8, MSIZE at 10, PL at 12 (two bits
  each), MEM2MEM at 14; in the status register the group of channel 1 holds
  TCIF1, HTIF1, TEIF1 at bits 1, 2, 3.
\<close>

definition CCR_EN :: nat where "CCR_EN = 0"
definition CCR_TCIE :: nat where "CCR_TCIE = 1"
definition CCR_HTIE :: nat where "CCR_HTIE = 2"
definition CCR_TEIE :: nat where "CCR_TEIE = 3"
definition CCR_DIR :: nat where "CCR_DIR = 4"
definition CCR_CIRC :: nat where "CCR_CIRC = 5"
definition CCR_PINC :: nat where "CCR_PINC = 6"
definition CCR_MINC :: nat where "CCR_MINC = 7"
definition CCR_PSIZE :: nat where "CCR_PSIZE = 8"
definition CCR_MSIZE :: nat where "CCR_MSIZE = 10"
definition CCR_PL :: nat where "CCR_PL = 12"
definition CCR_MEM2MEM :: nat where "CCR_MEM2MEM = 14"

definition DMA_CCR_EN :: u32 where "DMA_CCR_EN = 0x1"
definition DMA_CCR_TCIE :: u32 where "DMA_CCR_TCIE = 0x2"
definition DMA_CCR_HTIE :: u32 where "DMA_CCR_HTIE = 0x4"
definition DMA_CCR_TEIE :: u32 where "DMA_CCR_TEIE = 0x8"

fun DMA_ISR_IF1 :: "DMA_FlagType \<Rightarrow> u32" where
  "DMA_ISR_IF1 TC = 0x2"
| "DMA_ISR_IF1 HT = 0x4"
| "DMA_ISR_IF1 TE = 0x8"

fun CCR_IE :: "DMA_FlagType \<Rightarrow> nat" where
  "CCR_IE TC = CCR_TCIE"
| "CCR_IE HT = CCR_HTIE"
| "CCR_IE TE = CCR_TEIE"

text \<open>
  Modelled from the spec: the error state is a bitmask with the values NONE and
  TRANSFER\_ERROR (declared in xpd\_dma.h).
\<close>

definition DMA_ERROR_NONE :: u32 where "DMA_ERROR_NONE = 0"
definition DMA_ERROR_TRANSFER :: u32 where "DMA_ERROR_TRANSFER = 1"

text \<open>
  Modelled from the spec: a sentinel timeout value means "wait indefinitely"
  (declared in the library's common header).
\<close>

definition XPD_NO_TIMEOUT :: u32 where "XPD_NO_TIMEOUT = 0xFFFFFFFF"

definition DMA_ABORT_TIMEOUT :: u32 where "DMA_ABORT_TIMEOUT = 1000"

subsection \<open>Register access\<close>

definition inst_regs :: "DMA_HandleType \<Rightarrow> machine \<Rightarrow> DMA_Channel_TypeDef" where
  "inst_regs hdma m = chan (hw m) (Inst hdma)"

definition inst_update ::
  "DMA_HandleType \<Rightarrow> (DMA_Channel_TypeDef \<Rightarrow> DMA_Channel_TypeDef) \<Rightarrow> machine \<Rightarrow> machine" where
  "inst_update hdma f m =
     m\<lparr>hw := (hw m)\<lparr>chan := (chan (hw m))(Inst hdma := f (chan (hw m) (Inst hdma)))\<rparr>,
       bus := bus m @ [Chan_write (Inst hdma) (f (chan (hw m) (Inst hdma)))]\<rparr>"

text \<open>
  Writing a bit field of a register (\<^verbatim>\<open>CCR.b.PL = v\<close>): the value is truncated to
  the width of the field, the other bits of the register stay.
\<close>

definition field_write :: "nat \<Rightarrow> nat \<Rightarrow> u32 \<Rightarrow> u32 \<Rightarrow> u32" where
  "field_write pos width v w =
     (w AND NOT (push_bit pos (mask width))) OR push_bit pos (take_bit width v)"

text \<open>
  Modelled from the spec: \<^verbatim>\<open>DMA_REG_BIT(hdma, CCR, BIT)\<close> (xpd\_dma.h) names one bit
  of the control register, through the bit-band alias or the bit-field view;
  reading it gives the bit, assigning to it stores the lowest bit of the value.
\<close>

definition DMA_REG_BIT :: "DMA_HandleType \<Rightarrow> nat \<Rightarrow> machine \<Rightarrow> bool" where
  "DMA_REG_BIT hdma b m = bit (CCR (inst_regs hdma m)) b"

definition DMA_REG_BIT_assign :: "DMA_HandleType \<Rightarrow> nat \<Rightarrow> u32 \<Rightarrow> machine \<Rightarrow> machine" where
  "DMA_REG_BIT_assign hdma b v m =
     inst_update hdma (\<lambda>r. r\<lparr>CCR := field_write b 1 v (CCR r)\<rparr>) m"

definition CCR_field_assign :: "DMA_HandleType \<Rightarrow> nat \<Rightarrow> u32 \<Rightarrow> machine \<Rightarrow> machine" where
  "CCR_field_assign hdma pos v m =
     inst_update hdma (\<lambda>r. r\<lparr>CCR := field_write pos 2 v (CCR r)\<rparr>) m"

text \<open>\<^verbatim>\<open>SET_BIT(REG, BIT)\<close> is \<^verbatim>\<open>REG |= BIT\<close> and \<^verbatim>\<open>CLEAR_BIT(REG, BIT)\<close> is \<^verbatim>\<open>REG &= ~BIT\<close>.\<close>

definition SET_BIT :: "u32 \<Rightarrow> u32 \<Rightarrow> u32" where
  "SET_BIT reg b = reg OR b"

definition CLEAR_BIT :: "u32 \<Rightarrow> u32 \<Rightarrow> u32" where
  "CLEAR_BIT reg b = reg AND NOT b"

text \<open>
  Modelled from the spec: the flag macros of xpd\_dma.h locate the channel's flag
  group in the controller's shared status register by the cached
  \<^verbatim>\<open>ChannelOffset\<close>; a flag is cleared by writing its bit to the clear register,
  which resets that flag in the status register and no other. The enable bit
  of an interrupt source is the \<^verbatim>\<open>IE\<close> bit of the flag's name in the control
  register. A shift by 32 or more, undefined in C, gives 0 here; the offsets
  that \<^verbatim>\<open>dma_calcBase\<close> computes for the channels of the device are 0 to 24.
\<close>

definition flag_mask :: "DMA_HandleType \<Rightarrow> DMA_FlagType \<Rightarrow> u32" where
  "flag_mask hdma f = push_bit (unat (ChannelOffset hdma)) (DMA_ISR_IF1 f)"

definition XPD_DMA_GetFlag :: "DMA_HandleType \<Rightarrow> DMA_FlagType \<Rightarrow> machine \<Rightarrow> bool" where
  "XPD_DMA_GetFlag hdma f m = (isr (hw m) (Base hdma) AND flag_mask hdma f \<noteq> 0)"

definition XPD_DMA_ClearFlag :: "DMA_HandleType \<Rightarrow> DMA_FlagType \<Rightarrow> machine \<Rightarrow> machine" where
  "XPD_DMA_ClearFlag hdma f m =
     m\<lparr>hw := (hw m)\<lparr>isr := (isr (hw m))
        (Base hdma := isr (hw m) (Base hdma) AND NOT (flag_mask hdma f))\<rparr>,
       bus := bus m @ [IFCR_write (Base hdma) (flag_mask hdma f)]\<rparr>"

definition XPD_DMA_DisableIT :: "DMA_HandleType \<Rightarrow> DMA_FlagType \<Rightarrow> machine \<Rightarrow> machine" where
  "XPD_DMA_DisableIT hdma f m = DMA_REG_BIT_assign hdma (CCR_IE f) 0 m"

text \<open>
  Modelled from the spec: invoking a callback slot calls the registered function
  and is a no-op for an unset slot.
\<close>

definition XPD_SAFE_CALLBACK :: "nat option \<Rightarrow> machine \<Rightarrow> machine" where
  "XPD_SAFE_CALLBACK cb m = (case cb of None \<Rightarrow> m | Some f \<Rightarrow> m\<lparr>calls := calls m @ [f]\<rparr>)"

text \<open>
  Modelled from the spec: the critical-section primitives protect the start
  sequence and touch no DMA state; the nesting depth records that every entry is
  matched by an exit.
\<close>

definition XPD_ENTER_CRITICAL :: "machine \<Rightarrow> machine" where
  "XPD_ENTER_CRITICAL m = m\<lparr>critical := Suc (critical m)\<rparr>"

definition XPD_EXIT_CRITICAL :: "machine \<Rightarrow> machine" where
  "XPD_EXIT_CRITICAL m = m\<lparr>critical := critical m - 1\<rparr>"

text \<open>
  Modelled from the spec: the clock control function of a controller switches its
  clock on or off and is idempotent.
\<close>

definition dma_clkCtrl :: "nat \<Rightarrow> bool \<Rightarrow> machine \<Rightarrow> machine" where
  "dma_clkCtrl bo on m = m\<lparr>dma_clk := (dma_clk m)(bo := on)\<rparr>"

definition XPD_GetTimer :: "machine \<Rightarrow> u32" where
  "XPD_GetTimer m = msTick (hw m)"

subsection \<open>Channel addressing\<close>

definition DMA_BASE :: "u32 \<Rightarrow> u32" where
  "DMA_BASE CHANNEL = CHANNEL AND NOT 0xFF"

text \<open>
  \<^verbatim>\<open>DMA_BASE_OFFSET\<close> depends on whether the device has a second controller
  (\<^verbatim>\<open>#ifdef DMA2\<close>); its address, when there is one, is a parameter.
\<close>

definition DMA_BASE_OFFSET :: "u32 option \<Rightarrow> u32 \<Rightarrow> nat" where
  "DMA_BASE_OFFSET dma2 CHANNEL =
     (case dma2 of None \<Rightarrow> 0 | Some DMA2 \<Rightarrow> if CHANNEL < DMA2 then 0 else 1)"

definition DMA_CHANNEL_NUMBER :: "u32 \<Rightarrow> u32" where
  "DMA_CHANNEL_NUMBER CHANNEL = ((CHANNEL AND 0xFF) - 8) div 20"

definition dma_calcBase :: "DMA_HandleType \<Rightarrow> DMA_HandleType" where
  "dma_calcBase hdma =
     hdma\<lparr>Base := DMA_BASE (Inst hdma),
          ChannelOffset := ucast (DMA_CHANNEL_NUMBER (Inst hdma) * 4)\<rparr>"

text \<open>
  The bit of a channel in \<^verbatim>\<open>dma_users\<close>: \<^verbatim>\<open>1 << DMA_CHANNEL_NUMBER(hdma->Inst)\<close>,
  computed in 32 bits and narrowed to the 8-bit table entry by the compound
  assignment. A shift by 32 or more, undefined in C, gives 0 here; the channels
  of the device have the numbers 0 to 6.
\<close>

definition users_set :: "u8 \<Rightarrow> u32 \<Rightarrow> u8" where
  "users_set reg n = ucast (SET_BIT (ucast reg) (push_bit (unat n) 1))"

definition users_clear :: "u8 \<Rightarrow> u32 \<Rightarrow> u8" where
  "users_clear reg n = ucast (CLEAR_BIT (ucast reg) (push_bit (unat n) 1))"

subsection \<open>The driver functions\<close>

definition XPD_DMA_Enable :: "DMA_HandleType \<Rightarrow> machine \<Rightarrow> machine" where
  "XPD_DMA_Enable hdma m = DMA_REG_BIT_assign hdma CCR_EN 1 m"

definition XPD_DMA_Disable :: "DMA_HandleType \<Rightarrow> machine \<Rightarrow> machine" where
  "XPD_DMA_Disable hdma m = DMA_REG_BIT_assign hdma CCR_EN 0 m"

definition XPD_DMA_SetDirection :: "DMA_HandleType \<Rightarrow> u32 \<Rightarrow> machine \<Rightarrow> machine" where
  "XPD_DMA_SetDirection hdma Dir m = DMA_REG_BIT_assign hdma CCR_DIR Dir m"

definition XPD_DMA_Init ::
  "u32 option \<Rightarrow> DMA_HandleType \<Rightarrow> DMA_InitType \<Rightarrow> machine
     \<Rightarrow> XPD_ReturnType \<times> DMA_HandleType \<times> machine" where
  "XPD_DMA_Init dma2 hdma Config m0 =
     (let bo = DMA_BASE_OFFSET dma2 (Inst hdma);
          m1 = m0\<lparr>dma_users := (dma_users m0)
                  (bo := users_set (dma_users m0 bo) (DMA_CHANNEL_NUMBER (Inst hdma)))\<rparr>;
          m2 = dma_clkCtrl bo True m1;
          m3 = CCR_field_assign hdma CCR_PL (Priority Config) m2;
          m4 = DMA_REG_BIT_assign hdma CCR_DIR (Direction Config) m3;
          m5 = DMA_REG_BIT_assign hdma CCR_CIRC (Mode Config) m4;
          m6 = DMA_REG_BIT_assign hdma CCR_MEM2MEM (drop_bit 1 (Direction Config)) m5;
          m7 = DMA_REG_BIT_assign hdma CCR_PINC (Increment (Peripheral Config)) m6;
          m8 = CCR_field_assign hdma CCR_PSIZE (DataAlignment (Peripheral Config)) m7;
          m9 = DMA_REG_BIT_assign hdma CCR_MINC (Increment (Memory Config)) m8;
          m10 = CCR_field_assign hdma CCR_MSIZE (DataAlignment (Memory Config)) m9;
          m11 = inst_update hdma (\<lambda>r. r\<lparr>CNDTR := 0\<rparr>) m10;
          m12 = inst_update hdma (\<lambda>r. r\<lparr>CPAR := 0\<rparr>) m11
      in (XPD_OK, dma_calcBase hdma, m12))"

definition XPD_DMA_Deinit ::
  "u32 option \<Rightarrow> DMA_HandleType \<Rightarrow> machine \<Rightarrow> XPD_ReturnType \<times> DMA_HandleType \<times> machine" where
  "XPD_DMA_Deinit dma2 hdma m0 =
     (let m1 = XPD_DMA_Disable hdma m0;
          m2 = inst_update hdma (\<lambda>r. r\<lparr>CCR := 0\<rparr>) m1;
          m3 = inst_update hdma (\<lambda>r. r\<lparr>CNDTR := 0\<rparr>) m2;
          m4 = inst_update hdma (\<lambda>r. r\<lparr>CPAR := 0\<rparr>) m3;
          m5 = inst_update hdma (\<lambda>r. r\<lparr>CMAR := 0\<rparr>) m4;
          m6 = XPD_DMA_ClearFlag hdma HT m5;
          m7 = XPD_DMA_ClearFlag hdma TC m6;
          m8 = XPD_DMA_ClearFlag hdma TE m7;
          bo = DMA_BASE_OFFSET dma2 (Inst hdma);
          m9 = m8\<lparr>dma_users := (dma_users m8)
                  (bo := users_clear (dma_users m8 bo) (DMA_CHANNEL_NUMBER (Inst hdma)))\<rparr>;
          m10 = (if dma_users m9 bo = 0 then dma_clkCtrl bo False m9 else m9)
      in (XPD_OK, hdma, m10))"

definition XPD_DMA_GetStatus :: "DMA_HandleType \<Rightarrow> machine \<Rightarrow> XPD_ReturnType" where
  "XPD_DMA_GetStatus hdma m =
     (if DMA_REG_BIT hdma CCR_EN m \<and> CNDTR (inst_regs hdma m) > 0 then XPD_BUSY else XPD_OK)"

definition XPD_DMA_Start ::
  "DMA_HandleType \<Rightarrow> u32 \<Rightarrow> DataStreamType \<Rightarrow> machine
     \<Rightarrow> XPD_ReturnType \<times> DMA_HandleType \<times> machine" where
  "XPD_DMA_Start hdma PeriphAddress DataStream m0 =
     (let m1 = XPD_ENTER_CRITICAL m0;
          result = (if PeriphAddress \<noteq> CPAR (inst_regs hdma m1)
                    then XPD_DMA_GetStatus hdma m1 else XPD_OK)
      in if result = XPD_OK
         then
           (let m2 = XPD_DMA_Disable hdma m1;
                m3 = inst_update hdma (\<lambda>r. r\<lparr>CPAR := PeriphAddress\<rparr>) m2;
                m4 = inst_update hdma (\<lambda>r. r\<lparr>CNDTR := length_ds DataStream\<rparr>) m3;
                m5 = inst_update hdma (\<lambda>r. r\<lparr>CMAR := buffer DataStream\<rparr>) m4;
                hdma' = hdma\<lparr>Errors := DMA_ERROR_NONE\<rparr>;
                m6 = XPD_DMA_Enable hdma' m5
            in (result, hdma', XPD_EXIT_CRITICAL m6))
         else (result, hdma, XPD_EXIT_CRITICAL m1))"

text \<open>
  Whether the transfer-error interrupt is handled is a compile-time switch
  (\<^verbatim>\<open>USE_XPD_DMA_ERROR_DETECT\<close>), a parameter of the functions it changes.
\<close>

definition XPD_DMA_Start_IT ::
  "bool \<Rightarrow> DMA_HandleType \<Rightarrow> u32 \<Rightarrow> DataStreamType \<Rightarrow> machine
     \<Rightarrow> XPD_ReturnType \<times> DMA_HandleType \<times> machine" where
  "XPD_DMA_Start_IT error_detect hdma PeriphAddress DataStream m0 =
     (case XPD_DMA_Start hdma PeriphAddress DataStream m0 of (result, hdma', m1) \<Rightarrow>
        if result = XPD_OK
        then (result, hdma', inst_update hdma' (\<lambda>r. r\<lparr>CCR := SET_BIT (CCR r)
                (if error_detect then DMA_CCR_TCIE OR DMA_CCR_HTIE OR DMA_CCR_TEIE
                 else DMA_CCR_TCIE OR DMA_CCR_HTIE)\<rparr>) m1)
        else (result, hdma', m1))"

definition XPD_DMA_Stop_IT :: "bool \<Rightarrow> DMA_HandleType \<Rightarrow> machine \<Rightarrow> machine" where
  "XPD_DMA_Stop_IT error_detect hdma m0 =
     (let m1 = XPD_DMA_Disable hdma m0
      in inst_update hdma (\<lambda>r. r\<lparr>CCR := CLEAR_BIT (CCR r)
           (if error_detect then DMA_CCR_TCIE OR DMA_CCR_HTIE OR DMA_CCR_TEIE
            else DMA_CCR_TCIE OR DMA_CCR_HTIE)\<rparr>) m1)"

definition XPD_DMA_GetError :: "DMA_HandleType \<Rightarrow> u32" where
  "XPD_DMA_GetError hdma = Errors hdma"

text \<open>
  \<^verbatim>\<open>XPD_DMA_PollStatus\<close>. The loop condition reads the awaited flag; the code after
  the loop clears the transfer-complete flag for operation TRANSFER and the
  half-transfer flag in both cases.
\<close>

definition poll_success :: "DMA_HandleType \<Rightarrow> DMA_OperationType \<Rightarrow> machine \<Rightarrow> bool" where
  "poll_success hdma Operation m =
     (if Operation = DMA_OPERATION_TRANSFER then XPD_DMA_GetFlag hdma TC m
      else XPD_DMA_GetFlag hdma HT m)"

definition poll_done ::
  "DMA_HandleType \<Rightarrow> DMA_OperationType \<Rightarrow> machine
     \<Rightarrow> XPD_ReturnType \<times> DMA_HandleType \<times> machine" where
  "poll_done hdma Operation m =
     (let m1 = (if Operation = DMA_OPERATION_TRANSFER then XPD_DMA_ClearFlag hdma TC m else m)
      in (XPD_OK, hdma, XPD_DMA_ClearFlag hdma HT m1))"

text \<open>
  The loop, entered with the awaited flag read as not set. One iteration: the
  hardware event since the last read, the check of the transfer-error flag, the
  check of the timeout, and the next read of the awaited flag.
\<close>

fun poll_loop ::
  "DMA_HandleType \<Rightarrow> DMA_OperationType \<Rightarrow> u32 \<Rightarrow> u32 \<Rightarrow> hw_event list \<Rightarrow> machine
     \<Rightarrow> (XPD_ReturnType \<times> DMA_HandleType \<times> machine) option" where
  "poll_loop hdma Operation Timeout tickstart [] m = None"
| "poll_loop hdma Operation Timeout tickstart (e # env) m =
     (let m1 = hw_step e m
      in if XPD_DMA_GetFlag hdma TE m1
         then Some (XPD_ERROR, hdma\<lparr>Errors := Errors hdma OR DMA_ERROR_TRANSFER\<rparr>,
                    XPD_DMA_ClearFlag hdma TE m1)
         else if Timeout \<noteq> XPD_NO_TIMEOUT \<and> XPD_GetTimer m1 - tickstart > Timeout
         then Some (XPD_TIMEOUT, hdma, m1)
         else if poll_success hdma Operation m1
         then Some (poll_done hdma Operation m1)
         else poll_loop hdma Operation Timeout tickstart env m1)"

definition XPD_DMA_PollStatus ::
  "DMA_HandleType \<Rightarrow> DMA_OperationType \<Rightarrow> u32 \<Rightarrow> hw_event list \<Rightarrow> machine
     \<Rightarrow> (XPD_ReturnType \<times> DMA_HandleType \<times> machine) option" where
  "XPD_DMA_PollStatus hdma Operation Timeout env m =
     (let tickstart = XPD_GetTimer m
      in if poll_success hdma Operation m
         then Some (poll_done hdma Operation m)
         else poll_loop hdma Operation Timeout tickstart env m)"

text \<open>
  Modelled from the spec: \<^verbatim>\<open>XPD_WaitForMatch\<close> (xpd\_utils, not part of xpd\_dma.c)
  is the bounded-wait primitive. It polls a register until its masked value
  equals the expected one and returns OK, or returns TIMEOUT once more ticks
  than the budget have passed since it was called. Each poll reads what the
  hardware presents after the next hardware event; the first event is the
  reaction of the hardware to the write that precedes the wait (on some
  controllers the enable bit still reads as set for a while).
\<close>

fun wait_loop ::
  "(machine \<Rightarrow> u32) \<Rightarrow> u32 \<Rightarrow> u32 \<Rightarrow> u32 \<Rightarrow> u32 \<Rightarrow> hw_event list \<Rightarrow> machine
     \<Rightarrow> (XPD_ReturnType \<times> machine) option" where
  "wait_loop reg bitSelector match timeout tickstart [] m = None"
| "wait_loop reg bitSelector match timeout tickstart (e # env) m =
     (let m1 = hw_step e m
      in if reg m1 AND bitSelector = match then Some (XPD_OK, m1)
         else if XPD_GetTimer m1 - tickstart > timeout then Some (XPD_TIMEOUT, m1)
         else wait_loop reg bitSelector match timeout tickstart env m1)"

definition XPD_WaitForMatch ::
  "(machine \<Rightarrow> u32) \<Rightarrow> u32 \<Rightarrow> u32 \<Rightarrow> u32 \<Rightarrow> hw_event list \<Rightarrow> machine
     \<Rightarrow> (XPD_ReturnType \<times> machine) option" where
  "XPD_WaitForMatch reg bitSelector match timeout env m =
     wait_loop reg bitSelector match timeout (XPD_GetTimer m) env m"

definition XPD_DMA_Stop ::
  "DMA_HandleType \<Rightarrow> hw_event list \<Rightarrow> machine \<Rightarrow> (XPD_ReturnType \<times> machine) option" where
  "XPD_DMA_Stop hdma env m0 =
     (let timeout = DMA_ABORT_TIMEOUT;
          m1 = XPD_DMA_Disable hdma m0
      in XPD_WaitForMatch (\<lambda>m. CCR (inst_regs hdma m)) DMA_CCR_EN 0 timeout env m1)"

definition XPD_DMA_IRQHandler ::
  "bool \<Rightarrow> DMA_HandleType \<Rightarrow> machine \<Rightarrow> DMA_HandleType \<times> machine" where
  "XPD_DMA_IRQHandler error_detect hdma m0 =
     (let m1 = (if XPD_DMA_GetFlag hdma HT m0
                then (let ma = XPD_DMA_ClearFlag hdma HT m0;
                          mb = (if \<not> DMA_REG_BIT hdma CCR_CIRC ma
                                then XPD_DMA_DisableIT hdma HT ma else ma)
                      in XPD_SAFE_CALLBACK (HalfComplete (Callbacks hdma)) mb)
                else m0);
          m2 = (if XPD_DMA_GetFlag hdma TC m1
                then (let ma = XPD_DMA_ClearFlag hdma TC m1;
                          mb = (if \<not> DMA_REG_BIT hdma CCR_CIRC ma
                                then XPD_DMA_DisableIT hdma TC ma else ma)
                      in XPD_SAFE_CALLBACK (Complete (Callbacks hdma)) mb)
                else m1)
      in if error_detect \<and> XPD_DMA_GetFlag hdma TE m2
         then (let ma = XPD_DMA_ClearFlag hdma TE m2;
                   hdma' = hdma\<lparr>Errors := Errors hdma OR DMA_ERROR_TRANSFER\<rparr>
               in (hdma', XPD_SAFE_CALLBACK (Error (Callbacks hdma')) ma))
         else (hdma, m2))"

subsection \<open>Notions used to state the properties\<close>

text \<open>
  The state after a list of hardware events.
\<close>

definition hw_run :: "hw_event list \<Rightarrow> machine \<Rightarrow> machine" where
  "hw_run es m = foldl (\<lambda>s e. hw_step e s) m es"

text \<open>
  An iteration of the polling loop goes on to the next one when, after its
  hardware event, the transfer-error flag is not set, the timeout has not elapsed
  and the awaited flag is not set.
\<close>

definition poll_waiting ::
  "DMA_HandleType \<Rightarrow> DMA_OperationType \<Rightarrow> u32 \<Rightarrow> u32 \<Rightarrow> machine \<Rightarrow> bool" where
  "poll_waiting hdma Operation Timeout tickstart m =
     (\<not> XPD_DMA_GetFlag hdma TE m
      \<and> \<not> (Timeout \<noteq> XPD_NO_TIMEOUT \<and> XPD_GetTimer m - tickstart > Timeout)
      \<and> \<not> poll_success hdma Operation m)"

text \<open>
  A poll of the stop wait goes on to the next one when the enable bit still reads
  as set and no more than the abort timeout has elapsed.
\<close>

definition stop_waiting :: "DMA_HandleType \<Rightarrow> u32 \<Rightarrow> machine \<Rightarrow> bool" where
  "stop_waiting hdma tickstart m =
     (DMA_REG_BIT hdma CCR_EN m \<and> \<not> XPD_GetTimer m - tickstart > DMA_ABORT_TIMEOUT)"

text \<open>
  The calls that invoking a callback slot adds to the log.
\<close>

definition slot_calls :: "nat option \<Rightarrow> nat list" where
  "slot_calls cb = (case cb of None \<Rightarrow> [] | Some f \<Rightarrow> [f])"

text \<open>
  Sequences of initialisations and deinitialisations, each with the handle it is
  called on, run from left to right on the machine.
\<close>

datatype dma_op = Op_Init DMA_HandleType DMA_InitType | Op_Deinit DMA_HandleType

fun op_handle :: "dma_op \<Rightarrow> DMA_HandleType" where
  "op_handle (Op_Init hdma Config) = hdma"
| "op_handle (Op_Deinit hdma) = hdma"

fun run_op :: "u32 option \<Rightarrow> machine \<Rightarrow> dma_op \<Rightarrow> machine" where
  "run_op dma2 m (Op_Init hdma Config) = snd (snd (XPD_DMA_Init dma2 hdma Config m))"
| "run_op dma2 m (Op_Deinit hdma) = snd (snd (XPD_DMA_Deinit dma2 hdma m))"

definition run_ops :: "u32 option \<Rightarrow> dma_op list \<Rightarrow> machine \<Rightarrow> machine" where
  "run_ops dma2 ops m = foldl (run_op dma2) m ops"

text \<open>
  The number of channels of a controller that hold its clock: the number of bits
  set in the controller's entry of \<^verbatim>\<open>dma_users\<close>.
\<close>

definition clock_holders :: "machine \<Rightarrow> nat \<Rightarrow> nat" where
  "clock_holders m bo = length (filter (bit (dma_users m bo)) [0..<8])"

subsection \<open>Example states\<close>

text \<open>
  The machine after reset (registers zero, no clock user, clocks off), handles of
  channels 2 and 3 of the first controller, a setup structure, a data stream, a
  channel in the middle of a transfer, and hardware events that raise flags,
  advance the tick counter and set a channel's registers.
\<close>

definition reset_hw :: dma_hw where
  "reset_hw = \<lparr>chan = (\<lambda>a. \<lparr>CCR = 0, CNDTR = 0, CPAR = 0, CMAR = 0\<rparr>), isr = (\<lambda>a. 0), msTick = 0\<rparr>"

definition reset_machine :: machine where
  "reset_machine =
     \<lparr>hw = reset_hw, dma_users = (\<lambda>bo. 0), dma_clk = (\<lambda>bo. False), critical = 0, calls = [],
      bus = []\<rparr>"

definition ex_handle :: DMA_HandleType where
  "ex_handle =
     \<lparr>Inst = 0x4002001C, Base = 0x40020000, ChannelOffset = 4,
      Callbacks = \<lparr>Complete = Some 1, HalfComplete = Some 2, Error = Some 3\<rparr>,
      Errors = 0\<rparr>"

definition ex_handle2 :: DMA_HandleType where
  "ex_handle2 =
     \<lparr>Inst = 0x40020030, Base = 0, ChannelOffset = 0,
      Callbacks = \<lparr>Complete = None, HalfComplete = None, Error = None\<rparr>,
      Errors = 0\<rparr>"

definition ex_config :: DMA_InitType where
  "ex_config =
     \<lparr>Priority = 1, Direction = 1, Mode = 0,
      Peripheral = \<lparr>Increment = 0, DataAlignment = 0\<rparr>,
      Memory = \<lparr>Increment = 1, DataAlignment = 0\<rparr>\<rparr>"

definition ex_stream :: DataStreamType where
  "ex_stream = \<lparr>buffer = 0x20000100, length_ds = 8\<rparr>"

definition hw_raise :: "u32 \<Rightarrow> u32 \<Rightarrow> hw_event" where
  "hw_raise base bits h = h\<lparr>isr := (isr h)(base := isr h base OR bits)\<rparr>"

definition hw_tick :: "u32 \<Rightarrow> hw_event" where
  "hw_tick n h = h\<lparr>msTick := msTick h + n\<rparr>"

definition hw_chan_set :: "u32 \<Rightarrow> DMA_Channel_TypeDef \<Rightarrow> hw_event" where
  "hw_chan_set a r h = h\<lparr>chan := (chan h)(a := r)\<rparr>"

definition ex_busy :: machine where
  "ex_busy = hw_step (hw_chan_set 0x4002001C
       \<lparr>CCR = 0x1, CNDTR = 5, CPAR = 0x40013804, CMAR = 0x20000000\<rparr>) reset_machine"

section \<open>Properties\<close>

subsection \<open>Bits of the registers\<close>

lemma bit_2_u32: "bit (2::u32) n = (n = 1)"
proof -
  have "bit (push_bit 1 (1::u32)) n = (n = 1)"
    by (simp only: bit_push_bit_iff bit_1_iff) (auto simp add: possible_bit_word)
  then show ?thesis by simp
qed

lemma bit_4_u32: "bit (4::u32) n = (n = 2)"
proof -
  have "bit (push_bit 2 (1::u32)) n = (n = 2)"
    by (simp only: bit_push_bit_iff bit_1_iff) (auto simp add: possible_bit_word)
  then show ?thesis by simp
qed

lemma bit_8_u32: "bit (8::u32) n = (n = 3)"
proof -
  have "bit (push_bit 3 (1::u32)) n = (n = 3)"
    by (simp only: bit_push_bit_iff bit_1_iff) (auto simp add: possible_bit_word)
  then show ?thesis by simp
qed

lemma flag_mask_disj: "f \<noteq> g \<Longrightarrow> flag_mask hdma f AND flag_mask hdma g = 0"
proof (rule bit_eqI)
  fix n
  assume "f \<noteq> g"
  then have "\<not> (bit (DMA_ISR_IF1 f) (n - unat (ChannelOffset hdma))
               \<and> bit (DMA_ISR_IF1 g) (n - unat (ChannelOffset hdma)))"
    by (cases f; cases g; simp only: DMA_ISR_IF1.simps bit_2_u32 bit_4_u32 bit_8_u32; simp)
  then show "bit (flag_mask hdma f AND flag_mask hdma g) n = bit (0::u32) n"
    by (simp only: flag_mask_def bit_and_iff bit_push_bit_iff) simp
qed

lemma and_not_other:
  fixes x a b :: u32
  assumes "a AND b = 0"
  shows "(x AND NOT a) AND b = x AND b"
proof (rule bit_eqI)
  fix n
  have "bit (a AND b) n = False"
    using assms by simp
  then have "\<not> (bit a n \<and> bit b n)"
    by (simp add: bit_and_iff)
  then show "bit ((x AND NOT a) AND b) n = bit (x AND b) n"
    by (auto simp add: bit_and_iff bit_not_iff dest: bit_imp_le_length)
qed

lemma and_EN_eq_0: "(w AND DMA_CCR_EN = 0) = (\<not> bit w CCR_EN)" for w :: u32
  by (simp add: DMA_CCR_EN_def CCR_EN_def and_one_eq bit_0 even_iff_mod_2_eq_zero)

lemma bit_field_write_1:
  "bit (field_write pos (Suc 0) v w) n = (if n = pos \<and> n < 32 then bit v 0 else bit w n)"
  by (auto simp add: field_write_def bit_simps bit_0 dest: bit_imp_le_length)

lemma field_write_EN_off: "field_write CCR_EN (Suc 0) 0 w = w AND NOT DMA_CCR_EN"
  by (rule bit_eqI)
     (auto simp add: bit_field_write_1 CCR_EN_def DMA_CCR_EN_def bit_and_iff bit_not_iff
       bit_1_iff dest: bit_imp_le_length)

lemma field_write_EN_on_cleared:
  "field_write CCR_EN (Suc 0) 1 (w AND NOT DMA_CCR_EN) = w OR DMA_CCR_EN"
  by (rule bit_eqI)
     (auto simp add: bit_field_write_1 CCR_EN_def DMA_CCR_EN_def bit_and_iff bit_not_iff
       bit_or_iff bit_1_iff dest: bit_imp_le_length)

lemma bit_and_not_EN [simp]: "\<not> bit (w AND NOT DMA_CCR_EN) CCR_EN" for w :: u32
  by (simp add: DMA_CCR_EN_def CCR_EN_def bit_and_iff bit_not_iff bit_0 even_and_iff)

lemma bit_or_EN [simp]: "bit (w OR DMA_CCR_EN) CCR_EN" for w :: u32
  by (simp add: DMA_CCR_EN_def CCR_EN_def bit_or_iff bit_0 even_or_iff)

lemma bit_users_set: "bit (users_set w n) k = (bit w k \<or> (k = unat n \<and> k < 8))"
  by (auto simp add: users_set_def SET_BIT_def bit_simps dest: bit_imp_le_length)

lemma bit_users_clear: "bit (users_clear w n) k = (bit w k \<and> k \<noteq> unat n)"
  by (auto simp add: users_clear_def CLEAR_BIT_def bit_simps dest: bit_imp_le_length)

lemma users_clear_zero [simp]: "users_clear 0 n = 0"
  by (rule bit_eqI) (simp add: bit_users_clear)

lemma users_set_nonzero: "unat n < 8 \<Longrightarrow> users_set w n \<noteq> 0"
proof
  assume n: "unat n < 8" and z: "users_set w n = 0"
  have "bit (users_set w n) (unat n)" using n by (simp add: bit_users_set)
  with z show False by simp
qed

lemma two_channels_users:
  assumes "unat n1 < 8" "unat n2 < 8" "n1 \<noteq> n2"
  shows "users_clear (users_set (users_set 0 n1) n2) n1 \<noteq> 0"
    and "users_clear (users_clear (users_set (users_set 0 n1) n2) n1) n2 = 0"
proof -
  from assms have ne: "unat n1 \<noteq> unat n2" using word_unat_eq_iff by blast
  have "bit (users_clear (users_set (users_set 0 n1) n2) n1) (unat n2)"
    using assms ne by (simp add: bit_users_set bit_users_clear)
  then show "users_clear (users_set (users_set 0 n1) n2) n1 \<noteq> 0" by auto
  show "users_clear (users_clear (users_set (users_set 0 n1) n2) n1) n2 = 0"
    by (rule bit_eqI) (auto simp add: bit_users_set bit_users_clear)
qed

subsection \<open>What each register access leaves unchanged\<close>

lemma GetFlag_ClearFlag [simp]:
  "XPD_DMA_GetFlag hdma g (XPD_DMA_ClearFlag hdma f m) = (g \<noteq> f \<and> XPD_DMA_GetFlag hdma g m)"
proof (cases "g = f")
  case True
  have "(isr (hw m) (Base hdma) AND NOT (flag_mask hdma f)) AND flag_mask hdma f = 0"
    by (rule bit_eqI) (auto simp add: bit_simps)
  then show ?thesis using True
    by (simp add: XPD_DMA_GetFlag_def XPD_DMA_ClearFlag_def)
next
  case False
  then have "flag_mask hdma f AND flag_mask hdma g = 0" by (simp add: flag_mask_disj)
  then show ?thesis using False
    by (simp add: XPD_DMA_GetFlag_def XPD_DMA_ClearFlag_def and_not_other)
qed

lemma inst_regs_ClearFlag [simp]:
  "inst_regs h' (XPD_DMA_ClearFlag hdma f m) = inst_regs h' m"
  by (simp add: inst_regs_def XPD_DMA_ClearFlag_def)

lemma GetFlag_inst_update [simp]:
  "XPD_DMA_GetFlag hdma f (inst_update h' g m) = XPD_DMA_GetFlag hdma f m"
  by (simp add: XPD_DMA_GetFlag_def inst_update_def)

lemma GetFlag_callback [simp]:
  "XPD_DMA_GetFlag hdma f (XPD_SAFE_CALLBACK cb m) = XPD_DMA_GetFlag hdma f m"
  by (simp add: XPD_DMA_GetFlag_def XPD_SAFE_CALLBACK_def split: option.splits)

lemma inst_regs_callback [simp]:
  "inst_regs hdma (XPD_SAFE_CALLBACK cb m) = inst_regs hdma m"
  by (simp add: inst_regs_def XPD_SAFE_CALLBACK_def split: option.splits)

lemma GetFlag_Errors [simp]:
  "XPD_DMA_GetFlag (hdma\<lparr>Errors := e\<rparr>) f m = XPD_DMA_GetFlag hdma f m"
  by (simp add: XPD_DMA_GetFlag_def flag_mask_def)

lemma inst_regs_inst_update [simp]:
  "inst_regs hdma (inst_update hdma f m) = f (inst_regs hdma m)"
  by (simp add: inst_regs_def inst_update_def)

lemma inst_regs_Errors [simp]: "inst_regs (hdma\<lparr>Errors := e\<rparr>) m = inst_regs hdma m"
  by (simp add: inst_regs_def)

lemma inst_regs_critical [simp]: "inst_regs hdma (m\<lparr>critical := c\<rparr>) = inst_regs hdma m"
  by (simp add: inst_regs_def)

lemma DMA_REG_BIT_assign_read [simp]:
  "DMA_REG_BIT hdma b (DMA_REG_BIT_assign hdma b' v m)
     = (if b = b' \<and> b < 32 then bit v 0 else DMA_REG_BIT hdma b m)"
  by (simp add: DMA_REG_BIT_def DMA_REG_BIT_assign_def bit_field_write_1)

lemma DMA_REG_BIT_ClearFlag [simp]:
  "DMA_REG_BIT hdma b (XPD_DMA_ClearFlag h' f m) = DMA_REG_BIT hdma b m"
  by (simp add: DMA_REG_BIT_def)

lemma DMA_REG_BIT_callback [simp]:
  "DMA_REG_BIT hdma b (XPD_SAFE_CALLBACK cb m) = DMA_REG_BIT hdma b m"
  by (simp add: DMA_REG_BIT_def)

lemma GetFlag_REG_BIT_assign [simp]:
  "XPD_DMA_GetFlag hdma f (DMA_REG_BIT_assign h' b v m) = XPD_DMA_GetFlag hdma f m"
  by (simp add: DMA_REG_BIT_assign_def)

lemma calls_inst_update [simp]: "calls (inst_update hdma f m) = calls m"
  by (simp add: inst_update_def)

lemma calls_REG_BIT_assign [simp]: "calls (DMA_REG_BIT_assign hdma b v m) = calls m"
  by (simp add: DMA_REG_BIT_assign_def)

lemma calls_ClearFlag [simp]: "calls (XPD_DMA_ClearFlag hdma f m) = calls m"
  by (simp add: XPD_DMA_ClearFlag_def)

lemma calls_callback [simp]: "calls (XPD_SAFE_CALLBACK cb m) = calls m @ slot_calls cb"
  by (simp add: XPD_SAFE_CALLBACK_def slot_calls_def split: option.splits)

lemma XPD_GetTimer_REG_BIT_assign [simp]:
  "XPD_GetTimer (DMA_REG_BIT_assign hdma b v m) = XPD_GetTimer m"
  by (simp add: XPD_GetTimer_def DMA_REG_BIT_assign_def inst_update_def)

lemma dma_users_inst_update [simp]: "dma_users (inst_update hdma f m) = dma_users m"
  by (simp add: inst_update_def)

lemma dma_clk_inst_update [simp]: "dma_clk (inst_update hdma f m) = dma_clk m"
  by (simp add: inst_update_def)

lemma dma_users_ClearFlag [simp]: "dma_users (XPD_DMA_ClearFlag hdma f m) = dma_users m"
  by (simp add: XPD_DMA_ClearFlag_def)

lemma dma_clk_ClearFlag [simp]: "dma_clk (XPD_DMA_ClearFlag hdma f m) = dma_clk m"
  by (simp add: XPD_DMA_ClearFlag_def)

lemma GetStatus_ENTER_CRITICAL [simp]:
  "XPD_DMA_GetStatus hdma (XPD_ENTER_CRITICAL m) = XPD_DMA_GetStatus hdma m"
  by (simp add: XPD_DMA_GetStatus_def XPD_ENTER_CRITICAL_def DMA_REG_BIT_def)

lemma EXIT_ENTER_CRITICAL [simp]: "XPD_EXIT_CRITICAL (XPD_ENTER_CRITICAL m) = m"
  by (simp add: XPD_EXIT_CRITICAL_def XPD_ENTER_CRITICAL_def)

lemma GetStatus_Errors [simp]:
  "XPD_DMA_GetStatus (hdma\<lparr>Errors := e\<rparr>) m = XPD_DMA_GetStatus hdma m"
  by (simp add: XPD_DMA_GetStatus_def DMA_REG_BIT_def)

lemma hw_run_Nil [simp]: "hw_run [] m = m"
  by (simp add: hw_run_def)

lemma hw_run_Cons [simp]: "hw_run (e # es) m = hw_run es (hw_step e m)"
  by (simp add: hw_run_def)

lemma hw_run_snoc [simp]: "hw_run (es @ [e]) m = hw_step e (hw_run es m)"
  by (simp add: hw_run_def)

subsection \<open>The example states\<close>

lemma ex_busy_regs:
  "inst_regs ex_handle ex_busy = \<lparr>CCR = 0x1, CNDTR = 5, CPAR = 0x40013804, CMAR = 0x20000000\<rparr>"
  by (simp add: inst_regs_def ex_busy_def ex_handle_def hw_step_def hw_chan_set_def
      reset_machine_def)

lemma ex_busy_status: "XPD_DMA_GetStatus ex_handle ex_busy = XPD_BUSY"
  by (simp add: XPD_DMA_GetStatus_def DMA_REG_BIT_def ex_busy_regs CCR_EN_def)

lemma ex_channel_numbers:
  "DMA_CHANNEL_NUMBER (Inst ex_handle) = 1" "DMA_CHANNEL_NUMBER (Inst ex_handle2) = 2"
  "DMA_BASE_OFFSET (Some 0x40020400) (Inst ex_handle) = 0"
  "DMA_BASE_OFFSET (Some 0x40020400) (Inst ex_handle2) = 0"
  by (simp_all add: DMA_CHANNEL_NUMBER_def DMA_BASE_OFFSET_def ex_handle_def ex_handle2_def)

subsection \<open>Starting a transfer\<close>

text \<open>
  The two outcomes of \<^verbatim>\<open>XPD_DMA_Start\<close>: the early BUSY return, which restores the
  state it was called in, and the arming path with the final contents of the
  channel's registers.
\<close>

lemma Start_cases:
  "XPD_DMA_Start hdma PeriphAddress DataStream m =
     (if PeriphAddress \<noteq> CPAR (inst_regs hdma m) \<and> XPD_DMA_GetStatus hdma m = XPD_BUSY
      then (XPD_BUSY, hdma, m)
      else
        (let r0 = inst_regs hdma m;
             r1 = r0\<lparr>CCR := CCR r0 AND NOT DMA_CCR_EN\<rparr>;
             r2 = r1\<lparr>CPAR := PeriphAddress\<rparr>;
             r3 = r2\<lparr>CNDTR := length_ds DataStream\<rparr>;
             r4 = r3\<lparr>CMAR := buffer DataStream\<rparr>;
             r5 = r4\<lparr>CCR := CCR r0 OR DMA_CCR_EN\<rparr>
         in (XPD_OK, hdma\<lparr>Errors := DMA_ERROR_NONE\<rparr>,
             m\<lparr>hw := (hw m)\<lparr>chan := (chan (hw m))(Inst hdma := r5)\<rparr>,
               bus := bus m @ map (Chan_write (Inst hdma)) [r1, r2, r3, r4, r5]\<rparr>)))"
proof -
  obtain a b c d where r: "chan (hw m) (Inst hdma) = \<lparr>CCR = a, CNDTR = b, CPAR = c, CMAR = d\<rparr>"
    by (cases "chan (hw m) (Inst hdma)") simp
  show ?thesis
    by (simp add: XPD_DMA_Start_def Let_def XPD_ENTER_CRITICAL_def XPD_EXIT_CRITICAL_def
        XPD_DMA_Enable_def XPD_DMA_Disable_def DMA_REG_BIT_assign_def inst_update_def
        inst_regs_def field_write_EN_on_cleared field_write_EN_off r XPD_DMA_GetStatus_def
        DMA_REG_BIT_def)
qed

lemma Disable_write:
  "XPD_DMA_Disable hdma m =
     m\<lparr>hw := (hw m)\<lparr>chan := (chan (hw m))
           (Inst hdma := (inst_regs hdma m)\<lparr>CCR := CCR (inst_regs hdma m) AND NOT DMA_CCR_EN\<rparr>)\<rparr>,
       bus := bus m @ [Chan_write (Inst hdma)
           ((inst_regs hdma m)\<lparr>CCR := CCR (inst_regs hdma m) AND NOT DMA_CCR_EN\<rparr>)]\<rparr>"
  by (simp add: XPD_DMA_Disable_def DMA_REG_BIT_assign_def inst_update_def inst_regs_def
      field_write_EN_off)

text \<open>
  C1: when the requested peripheral address differs from the one latched in CPAR
  and the status check reports the channel busy, Start returns BUSY, and the
  handle (with its error state) and the whole machine state, so every register
  of the channel, are what they were before the call.
\<close>

theorem Start_busy_other_peripheral:
  assumes "PeriphAddress \<noteq> CPAR (inst_regs hdma m)"
    and "XPD_DMA_GetStatus hdma m = XPD_BUSY"
  shows "XPD_DMA_Start hdma PeriphAddress DataStream m = (XPD_BUSY, hdma, m)"
  using assms by (simp add: Start_cases)

theorem Start_busy_other_peripheral_witness:
  "0x40004404 \<noteq> CPAR (inst_regs ex_handle ex_busy)
   \<and> XPD_DMA_GetStatus ex_handle ex_busy = XPD_BUSY
   \<and> XPD_DMA_Start ex_handle 0x40004404 ex_stream ex_busy = (XPD_BUSY, ex_handle, ex_busy)"
proof -
  have ne: "0x40004404 \<noteq> CPAR (inst_regs ex_handle ex_busy)"
    by (simp add: ex_busy_regs)
  from Start_busy_other_peripheral [OF ne ex_busy_status, of ex_stream] ne ex_busy_status
  show ?thesis by simp
qed

text \<open>
  C2: when the requested peripheral address equals the one latched in CPAR, Start
  makes no status check and returns OK in every state, busy or not. It makes
  five register writes, in this order: the control register with the enable bit
  cleared (the write that \<^verbatim>\<open>XPD_DMA_Disable\<close> makes, after which the channel reads
  as disabled), the peripheral address, the transfer length, the memory
  address, and the control register with the enable bit set. The three
  registers are written while the enable bit is clear. Afterwards they hold the
  arguments, the enable bit is set, the other control bits are as before, the
  registers of the other channels are untouched, and the error state is NONE.
  The example after the theorem starts from a busy channel.
\<close>

theorem Start_same_peripheral:
  assumes "PeriphAddress = CPAR (inst_regs hdma m)"
  shows "(let r0 = inst_regs hdma m;
              r1 = r0\<lparr>CCR := CCR r0 AND NOT DMA_CCR_EN\<rparr>;
              r2 = r1\<lparr>CPAR := PeriphAddress\<rparr>;
              r3 = r2\<lparr>CNDTR := length_ds DataStream\<rparr>;
              r4 = r3\<lparr>CMAR := buffer DataStream\<rparr>;
              r5 = r4\<lparr>CCR := CCR r0 OR DMA_CCR_EN\<rparr>
          in XPD_DMA_Start hdma PeriphAddress DataStream m =
               (XPD_OK, hdma\<lparr>Errors := DMA_ERROR_NONE\<rparr>,
                m\<lparr>hw := (hw m)\<lparr>chan := (chan (hw m))(Inst hdma := r5)\<rparr>,
                  bus := bus m @ map (Chan_write (Inst hdma)) [r1, r2, r3, r4, r5]\<rparr>)
           \<and> XPD_DMA_Disable hdma m =
               m\<lparr>hw := (hw m)\<lparr>chan := (chan (hw m))(Inst hdma := r1)\<rparr>,
                 bus := bus m @ [Chan_write (Inst hdma) r1]\<rparr>
           \<and> \<not> DMA_REG_BIT hdma CCR_EN (XPD_DMA_Disable hdma m)
           \<and> \<not> bit (CCR r1) CCR_EN \<and> CCR r4 = CCR r1 \<and> bit (CCR r5) CCR_EN)"
  using assms
  by (simp add: Start_cases Let_def Disable_write DMA_REG_BIT_def inst_regs_def)

theorem Start_same_peripheral_witness:
  "0x40013804 = CPAR (inst_regs ex_handle ex_busy)
   \<and> XPD_DMA_GetStatus ex_handle ex_busy = XPD_BUSY
   \<and> (case XPD_DMA_Start (ex_handle\<lparr>Errors := 1\<rparr>) 0x40013804 ex_stream ex_busy of
        (r, h', m') \<Rightarrow> r = XPD_OK \<and> Errors h' = 0
          \<and> inst_regs ex_handle m'
             = \<lparr>CCR = 0x1, CNDTR = 8, CPAR = 0x40013804, CMAR = 0x20000100\<rparr>
          \<and> bus m' = map (Chan_write 0x4002001C)
              [\<lparr>CCR = 0x0, CNDTR = 5, CPAR = 0x40013804, CMAR = 0x20000000\<rparr>,
               \<lparr>CCR = 0x0, CNDTR = 5, CPAR = 0x40013804, CMAR = 0x20000000\<rparr>,
               \<lparr>CCR = 0x0, CNDTR = 8, CPAR = 0x40013804, CMAR = 0x20000000\<rparr>,
               \<lparr>CCR = 0x0, CNDTR = 8, CPAR = 0x40013804, CMAR = 0x20000100\<rparr>,
               \<lparr>CCR = 0x1, CNDTR = 8, CPAR = 0x40013804, CMAR = 0x20000100\<rparr>])"
proof -
  have eq: "0x40013804 = CPAR (inst_regs (ex_handle\<lparr>Errors := 1\<rparr>) ex_busy)"
    by (simp add: ex_busy_regs)
  have inst: "Inst ex_handle = 0x4002001C"
    by (simp add: ex_handle_def)
  have log: "bus ex_busy = []"
    by (simp add: ex_busy_def hw_step_def reset_machine_def)
  have regs: "chan (hw ex_busy) 0x4002001C
      = \<lparr>CCR = 0x1, CNDTR = 5, CPAR = 0x40013804, CMAR = 0x20000000\<rparr>"
    using ex_busy_regs by (simp add: inst_regs_def inst)
  from Start_same_peripheral [OF eq, of ex_stream] ex_busy_status
  show ?thesis
    by (simp add: Let_def ex_stream_def DMA_ERROR_NONE_def DMA_CCR_EN_def
        inst_regs_def inst log regs)
qed

subsection \<open>Interrupt dispatch\<close>

text \<open>
  C3: one call of the interrupt handler serves every flag that is set. After the
  call the half-transfer and the transfer-complete flags read as cleared; the
  half-transfer interrupt enable bit is switched off exactly when the
  half-transfer flag was set in a non-circular mode, and likewise the
  transfer-complete enable bit for the transfer-complete flag; no other control
  bit changes, so in circular mode neither enable bit is switched off. The log
  of callbacks grows by the half-complete callback (if that flag was set), then
  the complete callback (if that flag was set), then the error callback (if
  error detection is compiled in and the error flag was set); an unset slot adds
  nothing. In the example after the theorem both flags are set in a
  non-circular mode.
\<close>

theorem IRQHandler_dispatch:
  "(let ht = XPD_DMA_GetFlag hdma HT m;
        tc = XPD_DMA_GetFlag hdma TC m;
        te = XPD_DMA_GetFlag hdma TE m;
        circ = DMA_REG_BIT hdma CCR_CIRC m;
        (hdma', m') = XPD_DMA_IRQHandler error_detect hdma m
    in \<not> XPD_DMA_GetFlag hdma HT m'
     \<and> \<not> XPD_DMA_GetFlag hdma TC m'
     \<and> DMA_REG_BIT hdma CCR_HTIE m' = (DMA_REG_BIT hdma CCR_HTIE m \<and> (ht \<longrightarrow> circ))
     \<and> DMA_REG_BIT hdma CCR_TCIE m' = (DMA_REG_BIT hdma CCR_TCIE m \<and> (tc \<longrightarrow> circ))
     \<and> (\<forall>b. b \<noteq> CCR_HTIE \<and> b \<noteq> CCR_TCIE \<longrightarrow> DMA_REG_BIT hdma b m' = DMA_REG_BIT hdma b m)
     \<and> XPD_DMA_GetFlag hdma TE m' = (te \<and> \<not> error_detect)
     \<and> Errors hdma' =
         (if error_detect \<and> te then Errors hdma OR DMA_ERROR_TRANSFER else Errors hdma)
     \<and> calls m' = calls m
         @ (if ht then slot_calls (HalfComplete (Callbacks hdma)) else [])
         @ (if tc then slot_calls (Complete (Callbacks hdma)) else [])
         @ (if error_detect \<and> te then slot_calls (Error (Callbacks hdma)) else []))"
  by (auto simp add: XPD_DMA_IRQHandler_def Let_def XPD_DMA_DisableIT_def
      CCR_CIRC_def CCR_HTIE_def CCR_TCIE_def)

theorem IRQHandler_dispatch_witness:
  "(let m = hw_step (hw_raise 0x40020000 0x60
               \<circ> hw_chan_set 0x4002001C \<lparr>CCR = 0x6, CNDTR = 0, CPAR = 0, CMAR = 0\<rparr>) reset_machine
    in XPD_DMA_GetFlag ex_handle HT m \<and> XPD_DMA_GetFlag ex_handle TC m
     \<and> \<not> DMA_REG_BIT ex_handle CCR_CIRC m
     \<and> DMA_REG_BIT ex_handle CCR_HTIE m \<and> DMA_REG_BIT ex_handle CCR_TCIE m
     \<and> (case XPD_DMA_IRQHandler False ex_handle m of (h', m') \<Rightarrow>
          calls m' = [2, 1] \<and> \<not> DMA_REG_BIT ex_handle CCR_HTIE m'
          \<and> \<not> DMA_REG_BIT ex_handle CCR_TCIE m'))"
proof -
  let ?m = "hw_step (hw_raise 0x40020000 0x60
               \<circ> hw_chan_set 0x4002001C \<lparr>CCR = 0x6, CNDTR = 0, CPAR = 0, CMAR = 0\<rparr>) reset_machine"
  have flags: "XPD_DMA_GetFlag ex_handle HT ?m \<and> XPD_DMA_GetFlag ex_handle TC ?m"
    by (simp add: XPD_DMA_GetFlag_def flag_mask_def ex_handle_def reset_machine_def
        reset_hw_def hw_step_def hw_raise_def hw_chan_set_def)
  have bits: "\<not> DMA_REG_BIT ex_handle CCR_CIRC ?m
     \<and> DMA_REG_BIT ex_handle CCR_HTIE ?m \<and> DMA_REG_BIT ex_handle CCR_TCIE ?m"
    by (simp add: DMA_REG_BIT_def inst_regs_def ex_handle_def reset_machine_def
        reset_hw_def hw_step_def hw_raise_def hw_chan_set_def CCR_CIRC_def CCR_HTIE_def
        CCR_TCIE_def)
  have cs: "calls ?m = []"
    by (simp add: reset_machine_def hw_step_def)
  have slots: "slot_calls (HalfComplete (Callbacks ex_handle)) = [2]
     \<and> slot_calls (Complete (Callbacks ex_handle)) = [1]"
    by (simp add: slot_calls_def ex_handle_def)
  from IRQHandler_dispatch [of ex_handle ?m False] flags bits cs slots
  show ?thesis
    by (simp add: Let_def split: prod.splits)
qed

subsection \<open>The clock gate\<close>

lemma clock_holders_pos: "(0 < clock_holders m bo) = (dma_users m bo \<noteq> 0)"
proof -
  have "(dma_users m bo \<noteq> 0) = (\<exists>k<8. bit (dma_users m bo) k)"
  proof
    assume "dma_users m bo \<noteq> 0"
    then show "\<exists>k<8. bit (dma_users m bo) k" by (auto simp add: bit_eq_iff)
  next
    assume "\<exists>k<8. bit (dma_users m bo) k"
    then show "dma_users m bo \<noteq> 0" by auto
  qed
  also have "\<dots> = (filter (bit (dma_users m bo)) [0..<8] \<noteq> [])"
    by (auto simp add: filter_empty_conv)
  finally show ?thesis by (simp add: clock_holders_def)
qed

lemma Init_registry:
  "dma_users (snd (snd (XPD_DMA_Init dma2 hdma Config m)))
     = (dma_users m)(DMA_BASE_OFFSET dma2 (Inst hdma) :=
          users_set (dma_users m (DMA_BASE_OFFSET dma2 (Inst hdma)))
            (DMA_CHANNEL_NUMBER (Inst hdma)))"
  "dma_clk (snd (snd (XPD_DMA_Init dma2 hdma Config m)))
     = (dma_clk m)(DMA_BASE_OFFSET dma2 (Inst hdma) := True)"
  by (simp_all add: XPD_DMA_Init_def Let_def dma_clkCtrl_def CCR_field_assign_def
      DMA_REG_BIT_assign_def)

lemma Deinit_registry:
  "dma_users (snd (snd (XPD_DMA_Deinit dma2 hdma m)))
     = (dma_users m)(DMA_BASE_OFFSET dma2 (Inst hdma) :=
          users_clear (dma_users m (DMA_BASE_OFFSET dma2 (Inst hdma)))
            (DMA_CHANNEL_NUMBER (Inst hdma)))"
  "dma_clk (snd (snd (XPD_DMA_Deinit dma2 hdma m)))
     = (if users_clear (dma_users m (DMA_BASE_OFFSET dma2 (Inst hdma)))
            (DMA_CHANNEL_NUMBER (Inst hdma)) = 0
        then (dma_clk m)(DMA_BASE_OFFSET dma2 (Inst hdma) := False) else dma_clk m)"
  by (simp_all add: XPD_DMA_Deinit_def Let_def dma_clkCtrl_def XPD_DMA_Disable_def
      DMA_REG_BIT_assign_def)

lemma Init_handle [simp]:
  "fst (snd (XPD_DMA_Init dma2 hdma Config m)) = dma_calcBase hdma"
  by (simp add: XPD_DMA_Init_def Let_def)

lemma Deinit_handle [simp]: "fst (snd (XPD_DMA_Deinit dma2 hdma m)) = hdma"
  by (simp add: XPD_DMA_Deinit_def Let_def)

lemma Inst_calcBase [simp]: "Inst (dma_calcBase hdma) = Inst hdma"
  by (simp add: dma_calcBase_def)

lemma run_op_gate:
  assumes inv: "\<forall>bo. dma_clk m bo = (dma_users m bo \<noteq> 0)"
    and valid: "unat (DMA_CHANNEL_NUMBER (Inst (op_handle op))) < 8"
  shows "\<forall>bo. dma_clk (run_op dma2 m op) bo = (dma_users (run_op dma2 m op) bo \<noteq> 0)"
proof (cases op)
  case (Op_Init hdma Config)
  with inv valid show ?thesis
    by (simp add: Init_registry users_set_nonzero)
next
  case (Op_Deinit hdma)
  show ?thesis
  proof (cases "users_clear (dma_users m (DMA_BASE_OFFSET dma2 (Inst hdma)))
                  (DMA_CHANNEL_NUMBER (Inst hdma)) = 0")
    case True
    with inv Op_Deinit show ?thesis by (simp add: Deinit_registry)
  next
    case False
    then have "dma_users m (DMA_BASE_OFFSET dma2 (Inst hdma)) \<noteq> 0"
      by auto
    with False inv Op_Deinit show ?thesis by (simp add: Deinit_registry)
  qed
qed

lemma run_ops_gate:
  assumes "\<forall>bo. dma_clk m bo = (dma_users m bo \<noteq> 0)"
    and "\<forall>op \<in> set ops. unat (DMA_CHANNEL_NUMBER (Inst (op_handle op))) < 8"
  shows "\<forall>bo. dma_clk (run_ops dma2 ops m) bo = (dma_users (run_ops dma2 ops m) bo \<noteq> 0)"
  using assms
proof (induction ops arbitrary: m)
  case Nil
  then show ?case by (simp add: run_ops_def)
next
  case (Cons op ops)
  have "\<forall>bo. dma_clk (run_op dma2 m op) bo = (dma_users (run_op dma2 m op) bo \<noteq> 0)"
    using Cons.prems by (intro run_op_gate) simp_all
  moreover have "\<forall>x \<in> set ops. unat (DMA_CHANNEL_NUMBER (Inst (op_handle x))) < 8"
    using Cons.prems by simp
  ultimately have "\<forall>bo. dma_clk (run_ops dma2 ops (run_op dma2 m op)) bo
      = (dma_users (run_ops dma2 ops (run_op dma2 m op)) bo \<noteq> 0)"
    by (rule Cons.IH)
  then show ?case by (simp add: run_ops_def)
qed

text \<open>
  C4: start from a machine in which no channel holds a clock and the clocks are
  off, and run any sequence of Init and Deinit calls on channels whose number is
  below 8 (the entry of \<^verbatim>\<open>dma_users\<close> has 8 bits; the channels of the device are
  numbered from 0 to 6). In the state reached, for every controller, the number
  of channels holding the clock is not negative and the clock is on exactly when
  that number is positive. Releasing a channel that holds no clock leaves the
  number at zero. After Init on two different channels of one controller the
  clock is on, it stays on after Deinit of the first, and it is off after Deinit
  of both.
\<close>

theorem clock_gate_invariant:
  assumes start: "\<forall>bo. dma_users m0 bo = 0 \<and> \<not> dma_clk m0 bo"
    and valid: "\<forall>op \<in> set ops. unat (DMA_CHANNEL_NUMBER (Inst (op_handle op))) < 8"
    and h1: "unat (DMA_CHANNEL_NUMBER (Inst h1)) < 8"
    and h2: "unat (DMA_CHANNEL_NUMBER (Inst h2)) < 8"
    and distinct: "DMA_CHANNEL_NUMBER (Inst h1) \<noteq> DMA_CHANNEL_NUMBER (Inst h2)"
    and same: "DMA_BASE_OFFSET dma2 (Inst h2) = DMA_BASE_OFFSET dma2 (Inst h1)"
  shows "(\<forall>bo. 0 \<le> clock_holders (run_ops dma2 ops m0) bo
           \<and> dma_clk (run_ops dma2 ops m0) bo = (0 < clock_holders (run_ops dma2 ops m0) bo))
       \<and> clock_holders (snd (snd (XPD_DMA_Deinit dma2 h1 m0))) (DMA_BASE_OFFSET dma2 (Inst h1)) = 0
       \<and> (let (r1, h1a, ma) = XPD_DMA_Init dma2 h1 c1 m0;
               (r2, h2a, mb) = XPD_DMA_Init dma2 h2 c2 ma;
               (r3, h1b, mc) = XPD_DMA_Deinit dma2 h1a mb;
               (r4, h2b, md) = XPD_DMA_Deinit dma2 h2a mc
           in dma_clk mb (DMA_BASE_OFFSET dma2 (Inst h1))
            \<and> dma_clk mc (DMA_BASE_OFFSET dma2 (Inst h1))
            \<and> \<not> dma_clk md (DMA_BASE_OFFSET dma2 (Inst h1)))"
proof -
  from start have inv0: "\<forall>bo. dma_clk m0 bo = (dma_users m0 bo \<noteq> 0)" by simp
  have a: "\<forall>bo. 0 \<le> clock_holders (run_ops dma2 ops m0) bo
           \<and> dma_clk (run_ops dma2 ops m0) bo = (0 < clock_holders (run_ops dma2 ops m0) bo)"
    using run_ops_gate [OF inv0 valid] by (simp add: clock_holders_pos)
  have "dma_users (snd (snd (XPD_DMA_Deinit dma2 h1 m0))) (DMA_BASE_OFFSET dma2 (Inst h1)) = 0"
    using start by (simp add: Deinit_registry)
  then have b: "clock_holders (snd (snd (XPD_DMA_Deinit dma2 h1 m0)))
      (DMA_BASE_OFFSET dma2 (Inst h1)) = 0"
    using clock_holders_pos [of "snd (snd (XPD_DMA_Deinit dma2 h1 m0))"
        "DMA_BASE_OFFSET dma2 (Inst h1)"] by simp
  have c: "let (r1, h1a, ma) = XPD_DMA_Init dma2 h1 c1 m0;
               (r2, h2a, mb) = XPD_DMA_Init dma2 h2 c2 ma;
               (r3, h1b, mc) = XPD_DMA_Deinit dma2 h1a mb;
               (r4, h2b, md) = XPD_DMA_Deinit dma2 h2a mc
           in dma_clk mb (DMA_BASE_OFFSET dma2 (Inst h1))
            \<and> dma_clk mc (DMA_BASE_OFFSET dma2 (Inst h1))
            \<and> \<not> dma_clk md (DMA_BASE_OFFSET dma2 (Inst h1))"
    using start same two_channels_users [OF h1 h2 distinct]
    by (simp add: Let_def case_prod_beta Init_registry Deinit_registry)
  from a b c show ?thesis by blast
qed

theorem clock_gate_invariant_witness:
  "(let ops = [Op_Init ex_handle ex_config, Op_Init ex_handle2 ex_config, Op_Deinit ex_handle];
        m = run_ops (Some 0x40020400) ops reset_machine
    in dma_users m 0 = 4 \<and> 0 < clock_holders m 0 \<and> dma_clk m 0)
   \<and> (case XPD_DMA_Init (Some 0x40020400) ex_handle ex_config reset_machine of
        (r1, h1a, ma) \<Rightarrow>
      case XPD_DMA_Init (Some 0x40020400) ex_handle2 ex_config ma of (r2, h2a, mb) \<Rightarrow>
      case XPD_DMA_Deinit (Some 0x40020400) h1a mb of (r3, h1b, mc) \<Rightarrow>
      case XPD_DMA_Deinit (Some 0x40020400) h2a mc of (r4, h2b, md) \<Rightarrow>
        dma_users mc 0 = 4 \<and> dma_clk mc 0 \<and> dma_users md 0 = 0 \<and> \<not> dma_clk md 0)"
proof -
  let ?ops = "[Op_Init ex_handle ex_config, Op_Init ex_handle2 ex_config, Op_Deinit ex_handle]"
  have start: "\<forall>bo. dma_users reset_machine bo = 0 \<and> \<not> dma_clk reset_machine bo"
    by (simp add: reset_machine_def)
  have valid: "\<forall>op \<in> set ?ops. unat (DMA_CHANNEL_NUMBER (Inst (op_handle op))) < 8"
    by (simp add: ex_channel_numbers)
  have h1: "unat (DMA_CHANNEL_NUMBER (Inst ex_handle)) < 8"
    and h2: "unat (DMA_CHANNEL_NUMBER (Inst ex_handle2)) < 8"
    and distinct: "DMA_CHANNEL_NUMBER (Inst ex_handle) \<noteq> DMA_CHANNEL_NUMBER (Inst ex_handle2)"
    and same: "DMA_BASE_OFFSET (Some 0x40020400) (Inst ex_handle2)
                 = DMA_BASE_OFFSET (Some 0x40020400) (Inst ex_handle)"
    by (simp_all add: ex_channel_numbers)
  have users: "dma_users (run_ops (Some 0x40020400) ?ops reset_machine) 0 = 4"
    by (simp add: run_ops_def Init_registry Deinit_registry ex_channel_numbers
        users_set_def users_clear_def SET_BIT_def CLEAR_BIT_def reset_machine_def)
  have users_c: "dma_users (snd (snd (XPD_DMA_Deinit (Some 0x40020400) (dma_calcBase ex_handle)
       (snd (snd (XPD_DMA_Init (Some 0x40020400) ex_handle2 ex_config
       (snd (snd (XPD_DMA_Init (Some 0x40020400) ex_handle ex_config reset_machine)))))))))
       0 = 4"
    by (simp add: Init_registry Deinit_registry ex_channel_numbers
        users_set_def users_clear_def SET_BIT_def CLEAR_BIT_def reset_machine_def)
  have holders: "0 < clock_holders (run_ops (Some 0x40020400) ?ops reset_machine) 0"
    using users by (simp add: clock_holders_pos)
  note inst = clock_gate_invariant [OF start valid h1 h2 distinct same, of ex_config ex_config]
  show ?thesis
    using inst users users_c holders
    by (simp add: Let_def case_prod_beta ex_channel_numbers Init_registry Deinit_registry
        users_set_def users_clear_def SET_BIT_def CLEAR_BIT_def)
qed

subsection \<open>Polling\<close>

lemma poll_loop_prefix:
  assumes "\<forall>k<length pre. poll_waiting hdma Operation Timeout t0 (hw_run (take (Suc k) pre) m)"
  shows "poll_loop hdma Operation Timeout t0 (pre @ env) m
           = poll_loop hdma Operation Timeout t0 env (hw_run pre m)"
  using assms
proof (induction pre arbitrary: m)
  case Nil
  then show ?case by simp
next
  case (Cons e pre)
  from Cons.prems have first: "poll_waiting hdma Operation Timeout t0 (hw_step e m)"
    by fastforce
  have rest: "\<forall>k<length pre.
      poll_waiting hdma Operation Timeout t0 (hw_run (take (Suc k) pre) (hw_step e m))"
  proof (intro allI impI)
    fix k assume "k < length pre"
    then have "Suc k < length (e # pre)" by simp
    with Cons.prems
    have "poll_waiting hdma Operation Timeout t0 (hw_run (take (Suc (Suc k)) (e # pre)) m)"
      by blast
    then show "poll_waiting hdma Operation Timeout t0 (hw_run (take (Suc k) pre) (hw_step e m))"
      by simp
  qed
  from first have "poll_loop hdma Operation Timeout t0 ((e # pre) @ env) m
      = poll_loop hdma Operation Timeout t0 (pre @ env) (hw_step e m)"
    by (auto simp add: poll_waiting_def Let_def)
  also have "\<dots> = poll_loop hdma Operation Timeout t0 env (hw_run pre (hw_step e m))"
    by (rule Cons.IH [OF rest])
  finally show ?case by simp
qed

lemma poll_loop_sound:
  "poll_loop hdma Operation Timeout t0 env m = Some (r, h', m') \<Longrightarrow>
     (r = XPD_ERROR \<and> h' = hdma\<lparr>Errors := Errors hdma OR DMA_ERROR_TRANSFER\<rparr>
        \<and> \<not> XPD_DMA_GetFlag hdma TE m')
   \<or> (r = XPD_TIMEOUT \<and> h' = hdma \<and> Timeout \<noteq> XPD_NO_TIMEOUT
        \<and> XPD_GetTimer m' - t0 > Timeout)
   \<or> (r = XPD_OK \<and> h' = hdma \<and> \<not> XPD_DMA_GetFlag hdma HT m'
        \<and> (Operation = DMA_OPERATION_TRANSFER \<longrightarrow> \<not> XPD_DMA_GetFlag hdma TC m'))"
proof (induction env arbitrary: m)
  case Nil
  then show ?case by simp
next
  case (Cons e env)
  then show ?case
    by (auto simp add: Let_def poll_done_def split: if_splits)
qed

text \<open>
  C5: let the awaited flag be not set when PollStatus is entered, and let the
  loop pass any number of iterations in which it keeps waiting. If in the next
  iteration the transfer-error flag is read as set, PollStatus returns ERROR at
  once, with TRANSFER\_ERROR or-ed into the error state and the transfer-error
  flag cleared. Otherwise, if the timeout is not the no-timeout value and more
  ticks than the timeout have passed since the entry, it returns TIMEOUT.
  Otherwise, if the awaited flag is now set, it returns OK with the
  half-transfer flag cleared and, for operation TRANSFER, the transfer-complete
  flag cleared too. And whatever the hardware does, a call that returns has
  returned one of these three results, with the error state changed only in the
  first.
\<close>

theorem PollStatus_outcomes:
  assumes entry: "\<not> poll_success hdma Operation m"
    and quiet: "\<forall>k<length pre.
      poll_waiting hdma Operation Timeout (XPD_GetTimer m) (hw_run (take (Suc k) pre) m)"
  shows "(let m1 = hw_run (pre @ [e]) m;
              result = XPD_DMA_PollStatus hdma Operation Timeout (pre @ e # rest) m
          in (XPD_DMA_GetFlag hdma TE m1 \<longrightarrow>
                result = Some (XPD_ERROR, hdma\<lparr>Errors := Errors hdma OR DMA_ERROR_TRANSFER\<rparr>,
                               XPD_DMA_ClearFlag hdma TE m1)
                \<and> \<not> XPD_DMA_GetFlag hdma TE (XPD_DMA_ClearFlag hdma TE m1))
           \<and> (\<not> XPD_DMA_GetFlag hdma TE m1 \<and> Timeout \<noteq> XPD_NO_TIMEOUT
                \<and> XPD_GetTimer m1 - XPD_GetTimer m > Timeout \<longrightarrow>
                result = Some (XPD_TIMEOUT, hdma, m1))
           \<and> (\<not> XPD_DMA_GetFlag hdma TE m1
                \<and> \<not> (Timeout \<noteq> XPD_NO_TIMEOUT \<and> XPD_GetTimer m1 - XPD_GetTimer m > Timeout)
                \<and> poll_success hdma Operation m1 \<longrightarrow>
                result = Some (XPD_OK, hdma,
                  XPD_DMA_ClearFlag hdma HT
                    (if Operation = DMA_OPERATION_TRANSFER
                     then XPD_DMA_ClearFlag hdma TC m1 else m1))))
       \<and> (\<forall>env r h' m'.
            XPD_DMA_PollStatus hdma Operation Timeout env m = Some (r, h', m') \<longrightarrow>
              (r = XPD_ERROR \<and> h' = hdma\<lparr>Errors := Errors hdma OR DMA_ERROR_TRANSFER\<rparr>
                 \<and> \<not> XPD_DMA_GetFlag hdma TE m')
            \<or> (r = XPD_TIMEOUT \<and> h' = hdma \<and> Timeout \<noteq> XPD_NO_TIMEOUT
                 \<and> XPD_GetTimer m' - XPD_GetTimer m > Timeout)
            \<or> (r = XPD_OK \<and> h' = hdma \<and> \<not> XPD_DMA_GetFlag hdma HT m'
                 \<and> (Operation = DMA_OPERATION_TRANSFER \<longrightarrow> \<not> XPD_DMA_GetFlag hdma TC m')))"
proof -
  have loop: "XPD_DMA_PollStatus hdma Operation Timeout env m
                = poll_loop hdma Operation Timeout (XPD_GetTimer m) env m" for env
    using entry by (simp add: XPD_DMA_PollStatus_def)
  have step: "XPD_DMA_PollStatus hdma Operation Timeout (pre @ e # rest) m
          = poll_loop hdma Operation Timeout (XPD_GetTimer m) (e # rest) (hw_run pre m)"
    using loop poll_loop_prefix [OF quiet] by simp
  have sound: "(r = XPD_ERROR \<and> h' = hdma\<lparr>Errors := Errors hdma OR DMA_ERROR_TRANSFER\<rparr>
                 \<and> \<not> XPD_DMA_GetFlag hdma TE m')
            \<or> (r = XPD_TIMEOUT \<and> h' = hdma \<and> Timeout \<noteq> XPD_NO_TIMEOUT
                 \<and> XPD_GetTimer m' - XPD_GetTimer m > Timeout)
            \<or> (r = XPD_OK \<and> h' = hdma \<and> \<not> XPD_DMA_GetFlag hdma HT m'
                 \<and> (Operation = DMA_OPERATION_TRANSFER \<longrightarrow> \<not> XPD_DMA_GetFlag hdma TC m'))"
    if "XPD_DMA_PollStatus hdma Operation Timeout env m = Some (r, h', m')" for env r h' m'
    using that loop poll_loop_sound by simp
  show ?thesis
    unfolding Let_def step
    using sound by (simp add: Let_def poll_done_def)
qed

theorem PollStatus_outcomes_witness:
  "\<not> poll_success ex_handle DMA_OPERATION_TRANSFER reset_machine
   \<and> XPD_DMA_GetFlag ex_handle TE
       (hw_run [hw_tick 1, hw_raise 0x40020000 0x80] reset_machine)
   \<and> map_option (\<lambda>(r, h, m). (r, Errors h, XPD_DMA_GetFlag ex_handle TE m))
       (XPD_DMA_PollStatus ex_handle DMA_OPERATION_TRANSFER 10
          [hw_tick 1, hw_raise 0x40020000 0x80] reset_machine)
     = Some (XPD_ERROR, 1, False)"
proof -
  have entry: "\<not> poll_success ex_handle DMA_OPERATION_TRANSFER reset_machine"
    by (simp add: poll_success_def XPD_DMA_GetFlag_def flag_mask_def ex_handle_def
        reset_machine_def reset_hw_def)
  have quiet: "\<forall>k<length [hw_tick 1].
      poll_waiting ex_handle DMA_OPERATION_TRANSFER 10 (XPD_GetTimer reset_machine)
        (hw_run (take (Suc k) [hw_tick 1]) reset_machine)"
    by (simp add: poll_waiting_def poll_success_def XPD_DMA_GetFlag_def flag_mask_def
        ex_handle_def reset_machine_def reset_hw_def hw_step_def hw_tick_def XPD_GetTimer_def
        XPD_NO_TIMEOUT_def)
  have te: "XPD_DMA_GetFlag ex_handle TE
       (hw_run [hw_tick 1, hw_raise 0x40020000 0x80] reset_machine)"
    by (simp add: XPD_DMA_GetFlag_def flag_mask_def ex_handle_def reset_machine_def
        reset_hw_def hw_step_def hw_tick_def hw_raise_def)
  from PollStatus_outcomes [OF entry quiet, of "hw_raise 0x40020000 0x80" "[]"] te
  have "XPD_DMA_PollStatus ex_handle DMA_OPERATION_TRANSFER 10
          [hw_tick 1, hw_raise 0x40020000 0x80] reset_machine
        = Some (XPD_ERROR, ex_handle\<lparr>Errors := Errors ex_handle OR DMA_ERROR_TRANSFER\<rparr>,
            XPD_DMA_ClearFlag ex_handle TE
              (hw_run [hw_tick 1, hw_raise 0x40020000 0x80] reset_machine))"
    by (simp add: Let_def)
  then show ?thesis
    using entry te by (simp add: ex_handle_def DMA_ERROR_TRANSFER_def)
qed

subsection \<open>The error state\<close>

text \<open>
  C6: the error state of a handle changes only in three functions. Start and
  Start\_IT set it to NONE when they return OK, with the channel enabled, and
  leave handle and machine as they were otherwise; PollStatus and the interrupt
  handler either leave it or combine it with the TRANSFER\_ERROR bit by a
  bitwise or; Init and Deinit keep it; GetError returns it and, being a function of the handle alone, changes
  nothing. The other functions of the driver do not return a handle, so they
  cannot change it.
\<close>

theorem Errors_accumulate:
  "Errors (fst (snd (XPD_DMA_Init dma2 hdma Config m))) = Errors hdma
   \<and> Errors (fst (snd (XPD_DMA_Deinit dma2 hdma m))) = Errors hdma
   \<and> (let (r, h', m') = XPD_DMA_Start hdma PeriphAddress DataStream m
       in (r = XPD_OK \<longrightarrow> Errors h' = DMA_ERROR_NONE \<and> DMA_REG_BIT hdma CCR_EN m')
        \<and> (r \<noteq> XPD_OK \<longrightarrow> h' = hdma \<and> m' = m))
   \<and> (let (r, h', m') = XPD_DMA_Start_IT error_detect hdma PeriphAddress DataStream m
       in (r = XPD_OK \<longrightarrow> Errors h' = DMA_ERROR_NONE \<and> DMA_REG_BIT hdma CCR_EN m')
        \<and> (r \<noteq> XPD_OK \<longrightarrow> h' = hdma \<and> m' = m))
   \<and> (\<forall>r h' m'. XPD_DMA_PollStatus hdma Operation Timeout env m = Some (r, h', m') \<longrightarrow>
         Errors h' = Errors hdma \<or> Errors h' = Errors hdma OR DMA_ERROR_TRANSFER)
   \<and> (let (h', m') = XPD_DMA_IRQHandler error_detect hdma m
       in Errors h' = Errors hdma \<or> Errors h' = Errors hdma OR DMA_ERROR_TRANSFER)
   \<and> XPD_DMA_GetError hdma = Errors hdma"
proof -
  have init: "Errors (fst (snd (XPD_DMA_Init dma2 hdma Config m))) = Errors hdma"
    by (simp add: dma_calcBase_def)
  have deinit: "Errors (fst (snd (XPD_DMA_Deinit dma2 hdma m))) = Errors hdma"
    by simp
  have start: "let (r, h', m') = XPD_DMA_Start hdma PeriphAddress DataStream m
       in (r = XPD_OK \<longrightarrow> Errors h' = DMA_ERROR_NONE \<and> DMA_REG_BIT hdma CCR_EN m')
        \<and> (r \<noteq> XPD_OK \<longrightarrow> h' = hdma \<and> m' = m)"
    by (simp add: Start_cases DMA_REG_BIT_def Let_def inst_regs_def)
  have start_it: "let (r, h', m') = XPD_DMA_Start_IT error_detect hdma PeriphAddress DataStream m
       in (r = XPD_OK \<longrightarrow> Errors h' = DMA_ERROR_NONE \<and> DMA_REG_BIT hdma CCR_EN m')
        \<and> (r \<noteq> XPD_OK \<longrightarrow> h' = hdma \<and> m' = m)"
    using start
    by (auto simp add: XPD_DMA_Start_IT_def Let_def SET_BIT_def DMA_REG_BIT_def inst_regs_def
        inst_update_def bit_or_iff split: prod.splits)
  have poll: "Errors h' = Errors hdma \<or> Errors h' = Errors hdma OR DMA_ERROR_TRANSFER"
    if "XPD_DMA_PollStatus hdma Operation Timeout env m = Some (r, h', m')" for r h' m'
  proof (cases "poll_success hdma Operation m")
    case True
    with that show ?thesis by (simp add: XPD_DMA_PollStatus_def poll_done_def)
  next
    case False
    with that have "poll_loop hdma Operation Timeout (XPD_GetTimer m) env m = Some (r, h', m')"
      by (simp add: XPD_DMA_PollStatus_def)
    from poll_loop_sound [OF this] show ?thesis by auto
  qed
  have irq: "let (h', m') = XPD_DMA_IRQHandler error_detect hdma m
       in Errors h' = Errors hdma \<or> Errors h' = Errors hdma OR DMA_ERROR_TRANSFER"
    by (simp add: XPD_DMA_IRQHandler_def Let_def)
  have get: "XPD_DMA_GetError hdma = Errors hdma"
    by (simp add: XPD_DMA_GetError_def)
  from init deinit start start_it poll irq get show ?thesis by blast
qed

theorem Errors_accumulate_witness:
  "(case XPD_DMA_Start (ex_handle\<lparr>Errors := 1\<rparr>) 0x40013804 ex_stream reset_machine of
      (r, h', m') \<Rightarrow> r = XPD_OK \<and> XPD_DMA_GetError (ex_handle\<lparr>Errors := 1\<rparr>) = 1
        \<and> XPD_DMA_GetError h' = 0)
   \<and> (case XPD_DMA_Start (ex_handle\<lparr>Errors := 1\<rparr>) 0x40004404 ex_stream ex_busy of
      (r, h', m') \<Rightarrow> r = XPD_BUSY \<and> XPD_DMA_GetError h' = 1)"
proof -
  have ok: "fst (XPD_DMA_Start (ex_handle\<lparr>Errors := 1\<rparr>) 0x40013804 ex_stream reset_machine)
      = XPD_OK"
    by (simp add: Start_cases XPD_DMA_GetStatus_def DMA_REG_BIT_def Let_def
        inst_regs_def reset_machine_def reset_hw_def CCR_EN_def)
  have busy: "fst (XPD_DMA_Start (ex_handle\<lparr>Errors := 1\<rparr>) 0x40004404 ex_stream ex_busy)
      = XPD_BUSY"
    using ex_busy_status
    by (simp add: Start_cases ex_busy_regs)
  from Errors_accumulate [of "Some 0x40020400" "ex_handle\<lparr>Errors := 1\<rparr>" ex_config
      reset_machine "0x40013804" ex_stream False DMA_OPERATION_TRANSFER 0 "[]"] ok
  have a: "case XPD_DMA_Start (ex_handle\<lparr>Errors := 1\<rparr>) 0x40013804 ex_stream reset_machine of
      (r, h', m') \<Rightarrow> r = XPD_OK \<and> XPD_DMA_GetError (ex_handle\<lparr>Errors := 1\<rparr>) = 1
        \<and> XPD_DMA_GetError h' = 0"
    by (simp add: Let_def XPD_DMA_GetError_def DMA_ERROR_NONE_def split: prod.splits)
  from Errors_accumulate [of "Some 0x40020400" "ex_handle\<lparr>Errors := 1\<rparr>" ex_config
      ex_busy "0x40004404" ex_stream False DMA_OPERATION_TRANSFER 0 "[]"] busy
  have b: "case XPD_DMA_Start (ex_handle\<lparr>Errors := 1\<rparr>) 0x40004404 ex_stream ex_busy of
      (r, h', m') \<Rightarrow> r = XPD_BUSY \<and> XPD_DMA_GetError h' = 1"
    by (simp add: Let_def XPD_DMA_GetError_def split: prod.splits)
  from a b show ?thesis by blast
qed

subsection \<open>Stopping a transfer\<close>

lemma wait_loop_prefix:
  assumes "\<forall>k<length pre. stop_waiting hdma t0 (hw_run (take (Suc k) pre) m)"
  shows "wait_loop (\<lambda>s. CCR (inst_regs hdma s)) DMA_CCR_EN 0 DMA_ABORT_TIMEOUT t0 (pre @ env) m
       = wait_loop (\<lambda>s. CCR (inst_regs hdma s)) DMA_CCR_EN 0 DMA_ABORT_TIMEOUT t0 env (hw_run pre m)"
  using assms
proof (induction pre arbitrary: m)
  case Nil
  then show ?case by simp
next
  case (Cons e pre)
  from Cons.prems have first: "stop_waiting hdma t0 (hw_step e m)"
    by fastforce
  have rest: "\<forall>k<length pre. stop_waiting hdma t0 (hw_run (take (Suc k) pre) (hw_step e m))"
  proof (intro allI impI)
    fix k assume "k < length pre"
    then have "Suc k < length (e # pre)" by simp
    with Cons.prems
    have "stop_waiting hdma t0 (hw_run (take (Suc (Suc k)) (e # pre)) m)"
      by blast
    then show "stop_waiting hdma t0 (hw_run (take (Suc k) pre) (hw_step e m))"
      by simp
  qed
  from first have "wait_loop (\<lambda>s. CCR (inst_regs hdma s)) DMA_CCR_EN 0 DMA_ABORT_TIMEOUT t0
        ((e # pre) @ env) m
      = wait_loop (\<lambda>s. CCR (inst_regs hdma s)) DMA_CCR_EN 0 DMA_ABORT_TIMEOUT t0
        (pre @ env) (hw_step e m)"
    by (auto simp add: stop_waiting_def Let_def and_EN_eq_0 DMA_REG_BIT_def)
  also have "\<dots> = wait_loop (\<lambda>s. CCR (inst_regs hdma s)) DMA_CCR_EN 0 DMA_ABORT_TIMEOUT t0
        env (hw_run pre (hw_step e m))"
    by (rule Cons.IH [OF rest])
  finally show ?case by simp
qed

lemma wait_loop_sound:
  "wait_loop (\<lambda>s. CCR (inst_regs hdma s)) DMA_CCR_EN 0 DMA_ABORT_TIMEOUT t0 env m = Some (r, m')
   \<Longrightarrow> (r = XPD_OK \<and> \<not> DMA_REG_BIT hdma CCR_EN m')
     \<or> (r = XPD_TIMEOUT \<and> DMA_REG_BIT hdma CCR_EN m'
          \<and> XPD_GetTimer m' - t0 > DMA_ABORT_TIMEOUT)"
proof (induction env arbitrary: m)
  case Nil
  then show ?case by simp
next
  case (Cons e env)
  then show ?case
    by (auto simp add: Let_def and_EN_eq_0 DMA_REG_BIT_def split: if_splits)
qed

text \<open>
  C7: Stop clears the enable bit and then polls it. After any number of polls
  that read the bit as set within the bound of 1000 ticks, a poll that reads the
  bit as cleared makes Stop return OK, and a poll that reads it as set after
  more than 1000 ticks makes Stop return TIMEOUT. If the first poll reads the
  bit as cleared, Stop returns OK at that poll, whatever comes after. And a call
  that returns has returned OK with the bit cleared, or TIMEOUT with the bit set
  and more than 1000 ticks passed.
\<close>

theorem Stop_outcomes:
  assumes quiet: "\<forall>k<length pre.
      stop_waiting hdma (XPD_GetTimer m) (hw_run (take (Suc k) pre) (XPD_DMA_Disable hdma m))"
  shows "\<not> DMA_REG_BIT hdma CCR_EN (XPD_DMA_Disable hdma m)
       \<and> (let m1 = hw_run (pre @ [e]) (XPD_DMA_Disable hdma m);
              result = XPD_DMA_Stop hdma (pre @ e # rest) m
          in (\<not> DMA_REG_BIT hdma CCR_EN m1 \<longrightarrow> result = Some (XPD_OK, m1))
           \<and> (DMA_REG_BIT hdma CCR_EN m1 \<and> XPD_GetTimer m1 - XPD_GetTimer m > 1000 \<longrightarrow>
                result = Some (XPD_TIMEOUT, m1)))
       \<and> (\<not> DMA_REG_BIT hdma CCR_EN (hw_step e (XPD_DMA_Disable hdma m)) \<longrightarrow>
            XPD_DMA_Stop hdma (e # rest) m = Some (XPD_OK, hw_step e (XPD_DMA_Disable hdma m)))
       \<and> (\<forall>env r m'. XPD_DMA_Stop hdma env m = Some (r, m') \<longrightarrow>
            (r = XPD_OK \<and> \<not> DMA_REG_BIT hdma CCR_EN m')
          \<or> (r = XPD_TIMEOUT \<and> DMA_REG_BIT hdma CCR_EN m'
               \<and> XPD_GetTimer m' - XPD_GetTimer m > 1000))"
proof -
  have stop: "XPD_DMA_Stop hdma env m
      = wait_loop (\<lambda>s. CCR (inst_regs hdma s)) DMA_CCR_EN 0 DMA_ABORT_TIMEOUT (XPD_GetTimer m)
          env (XPD_DMA_Disable hdma m)" for env
    by (simp add: XPD_DMA_Stop_def XPD_WaitForMatch_def XPD_DMA_Disable_def Let_def)
  have cleared: "\<not> DMA_REG_BIT hdma CCR_EN (XPD_DMA_Disable hdma m)"
    by (simp add: XPD_DMA_Disable_def CCR_EN_def)
  have step: "XPD_DMA_Stop hdma (pre @ e # rest) m
      = wait_loop (\<lambda>s. CCR (inst_regs hdma s)) DMA_CCR_EN 0 DMA_ABORT_TIMEOUT (XPD_GetTimer m)
          (e # rest) (hw_run pre (XPD_DMA_Disable hdma m))"
    using stop wait_loop_prefix [OF quiet] by simp
  have a: "let m1 = hw_run (pre @ [e]) (XPD_DMA_Disable hdma m);
              result = XPD_DMA_Stop hdma (pre @ e # rest) m
          in (\<not> DMA_REG_BIT hdma CCR_EN m1 \<longrightarrow> result = Some (XPD_OK, m1))
           \<and> (DMA_REG_BIT hdma CCR_EN m1 \<and> XPD_GetTimer m1 - XPD_GetTimer m > 1000 \<longrightarrow>
                result = Some (XPD_TIMEOUT, m1))"
    unfolding Let_def step
    by (simp add: Let_def and_EN_eq_0 DMA_REG_BIT_def DMA_ABORT_TIMEOUT_def)
  have b: "\<not> DMA_REG_BIT hdma CCR_EN (hw_step e (XPD_DMA_Disable hdma m)) \<longrightarrow>
            XPD_DMA_Stop hdma (e # rest) m = Some (XPD_OK, hw_step e (XPD_DMA_Disable hdma m))"
    by (simp add: stop Let_def and_EN_eq_0 DMA_REG_BIT_def)
  have c: "(r = XPD_OK \<and> \<not> DMA_REG_BIT hdma CCR_EN m')
          \<or> (r = XPD_TIMEOUT \<and> DMA_REG_BIT hdma CCR_EN m'
               \<and> XPD_GetTimer m' - XPD_GetTimer m > 1000)"
    if "XPD_DMA_Stop hdma env m = Some (r, m')" for env r m'
    using that wait_loop_sound [of hdma "XPD_GetTimer m" env "XPD_DMA_Disable hdma m" r m']
    by (simp add: stop DMA_ABORT_TIMEOUT_def)
  from cleared a b c show ?thesis by blast
qed

theorem Stop_outcomes_witness:
  "(let still_enabled =
          hw_tick 600 \<circ> hw_chan_set 0x4002001C \<lparr>CCR = 1, CNDTR = 0, CPAR = 0, CMAR = 0\<rparr>
    in stop_waiting ex_handle (XPD_GetTimer reset_machine)
         (hw_step still_enabled (XPD_DMA_Disable ex_handle reset_machine))
     \<and> map_option fst (XPD_DMA_Stop ex_handle [still_enabled, hw_tick 600] reset_machine)
         = Some XPD_TIMEOUT
     \<and> map_option fst (XPD_DMA_Stop ex_handle [hw_tick 600] reset_machine) = Some XPD_OK)"
proof -
  let ?e1 = "hw_tick 600 \<circ> hw_chan_set 0x4002001C \<lparr>CCR = 1, CNDTR = 0, CPAR = 0, CMAR = 0\<rparr>"
  have w: "stop_waiting ex_handle (XPD_GetTimer reset_machine)
     (hw_step ?e1 (XPD_DMA_Disable ex_handle reset_machine))"
    by (simp add: stop_waiting_def DMA_REG_BIT_def inst_regs_def hw_step_def hw_tick_def
        hw_chan_set_def XPD_DMA_Disable_def DMA_REG_BIT_assign_def inst_update_def
        XPD_GetTimer_def reset_machine_def reset_hw_def ex_handle_def CCR_EN_def
        DMA_ABORT_TIMEOUT_def)
  then have quiet: "\<forall>k<length [?e1]. stop_waiting ex_handle (XPD_GetTimer reset_machine)
      (hw_run (take (Suc k) [?e1]) (XPD_DMA_Disable ex_handle reset_machine))"
    by simp
  have en: "DMA_REG_BIT ex_handle CCR_EN
      (hw_run ([?e1] @ [hw_tick 600]) (XPD_DMA_Disable ex_handle reset_machine))
    \<and> XPD_GetTimer (hw_run ([?e1] @ [hw_tick 600]) (XPD_DMA_Disable ex_handle reset_machine))
        - XPD_GetTimer reset_machine > 1000"
    by (simp add: DMA_REG_BIT_def inst_regs_def hw_step_def hw_tick_def
        hw_chan_set_def XPD_DMA_Disable_def DMA_REG_BIT_assign_def inst_update_def
        XPD_GetTimer_def reset_machine_def reset_hw_def ex_handle_def CCR_EN_def)
  have dis: "\<not> DMA_REG_BIT ex_handle CCR_EN
      (hw_step (hw_tick 600) (XPD_DMA_Disable ex_handle reset_machine))"
    by (simp add: DMA_REG_BIT_def inst_regs_def hw_step_def hw_tick_def
        XPD_DMA_Disable_def DMA_REG_BIT_assign_def inst_update_def field_write_def
        reset_machine_def reset_hw_def ex_handle_def CCR_EN_def)
  from Stop_outcomes [OF quiet, of "hw_tick 600" "[]"] en dis w
  show ?thesis
    by (simp add: Let_def)
qed

subsection \<open>The status\<close>

text \<open>C8: the status is BUSY exactly when the enable bit is set and the
  remaining-length register is nonzero, and OK in every other case. The function
  reads the state and returns only the status, so it modifies nothing.\<close>

theorem GetStatus_busy_iff:
  "(XPD_DMA_GetStatus hdma m = XPD_BUSY) =
     (bit (CCR (chan (hw m) (Inst hdma))) 0 \<and> CNDTR (chan (hw m) (Inst hdma)) \<noteq> 0)
   \<and> (XPD_DMA_GetStatus hdma m = XPD_OK) =
     (\<not> (bit (CCR (chan (hw m) (Inst hdma))) 0 \<and> CNDTR (chan (hw m) (Inst hdma)) \<noteq> 0))"
  by (simp add: XPD_DMA_GetStatus_def DMA_REG_BIT_def inst_regs_def CCR_EN_def
      word_greater_zero_iff)

subsection \<open>Initialisation\<close>

lemma Init_always_OK: "fst (XPD_DMA_Init dma2 hdma Config m) = XPD_OK"
  by (simp add: XPD_DMA_Init_def Let_def)

text \<open>
  C9: Init has no failure path. Called with a setup structure whose memory data
  alignment is 3, an encoding the controller reserves, it returns OK and writes
  the reserved value into the MSIZE field of the control register (bits 10 and
  11 of 0x1C90).
\<close>

theorem Init_reserved_alignment_accepted:
  "(case XPD_DMA_Init (Some 0x40020400) ex_handle
           (ex_config\<lparr>Memory := \<lparr>Increment = 1, DataAlignment = 3\<rparr>\<rparr>) reset_machine of
      (r, h', m') \<Rightarrow> r = XPD_OK \<and> CCR (inst_regs ex_handle m') = 0x1C90)"
  by (simp add: XPD_DMA_Init_def Let_def ex_config_def ex_handle_def reset_machine_def
      reset_hw_def dma_clkCtrl_def CCR_field_assign_def DMA_REG_BIT_assign_def inst_update_def
      inst_regs_def field_write_def CCR_PL_def CCR_DIR_def CCR_CIRC_def CCR_MEM2MEM_def
      CCR_PINC_def CCR_PSIZE_def CCR_MINC_def CCR_MSIZE_def mask_eq_exp_minus_1)

subsection \<open>Polling when the awaited flag is already set\<close>

text \<open>
  C10: if the awaited flag (transfer complete for operation TRANSFER, half
  transfer otherwise) is set when PollStatus is entered, it returns OK for every
  timeout and every behaviour of the hardware, the handle and its error state
  are unchanged, only the awaited flag and the half-transfer flag are cleared,
  and the transfer-error flag reads afterwards as it did before. In the example
  after the theorem the transfer-error flag is set together with the
  transfer-complete flag.
\<close>

theorem PollStatus_flag_already_set:
  assumes "XPD_DMA_GetFlag hdma (if Operation = DMA_OPERATION_TRANSFER then TC else HT) m"
  shows "XPD_DMA_PollStatus hdma Operation Timeout env m =
           Some (XPD_OK, hdma,
             XPD_DMA_ClearFlag hdma HT
               (if Operation = DMA_OPERATION_TRANSFER then XPD_DMA_ClearFlag hdma TC m else m))
         \<and> XPD_DMA_GetFlag hdma TE
             (XPD_DMA_ClearFlag hdma HT
               (if Operation = DMA_OPERATION_TRANSFER then XPD_DMA_ClearFlag hdma TC m else m))
           = XPD_DMA_GetFlag hdma TE m"
  using assms
  by (auto simp add: XPD_DMA_PollStatus_def poll_success_def poll_done_def split: if_splits)

theorem PollStatus_flag_already_set_witness:
  "XPD_DMA_GetFlag ex_handle TC (hw_step (hw_raise 0x40020000 0xA0) reset_machine)
   \<and> XPD_DMA_GetFlag ex_handle TE (hw_step (hw_raise 0x40020000 0xA0) reset_machine)
   \<and> map_option (\<lambda>(r, h, m). (r, Errors h, XPD_DMA_GetFlag ex_handle TE m))
       (XPD_DMA_PollStatus ex_handle DMA_OPERATION_TRANSFER 10 []
          (hw_step (hw_raise 0x40020000 0xA0) reset_machine))
     = Some (XPD_OK, 0, True)"
proof -
  have tc: "XPD_DMA_GetFlag ex_handle (if DMA_OPERATION_TRANSFER = DMA_OPERATION_TRANSFER then TC else HT)
      (hw_step (hw_raise 0x40020000 0xA0) reset_machine)"
    by (simp add: XPD_DMA_GetFlag_def flag_mask_def ex_handle_def reset_machine_def
        reset_hw_def hw_step_def hw_raise_def)
  have te: "XPD_DMA_GetFlag ex_handle TE (hw_step (hw_raise 0x40020000 0xA0) reset_machine)"
    by (simp add: XPD_DMA_GetFlag_def flag_mask_def ex_handle_def reset_machine_def
        reset_hw_def hw_step_def hw_raise_def)
  show ?thesis
    using PollStatus_flag_already_set [OF tc, of 10 "[]"] tc te
    by (simp add: ex_handle_def)
qed

end
